theory Spec2Isabelle
  imports Complex_Main "HOL-Library.Word"
begin

chapter \<open>EV charging station manager: the glue code and its specification\<close>

text \<open>
  The repository is a REST backend (\<^verbatim>\<open>backend/index.js\<close>) and a Vue frontend
  (the auth store, the router, the station form and the station map). Part I embeds the
  functions the specification talks about; Part II states and proves the properties.
\<close>

section \<open>Part I: the embedding\<close>

subsection \<open>JavaScript numbers and strings\<close>

text \<open>
  A JavaScript \<^verbatim>\<open>number\<close> is a double. The code below only compares numbers with
  the constants 0, 90, 180 (all exact doubles) and tests \<^verbatim>\<open>isNaN\<close>; it does no
  arithmetic. A finite double is therefore modelled by the real it denotes (both zeros
  are the real 0, as \<^verbatim>\<open>===\<close> and \<^verbatim>\<open><\<close> do not tell them apart), next to
  \<^verbatim>\<open>NaN\<close> and the two infinities.
\<close>

datatype js_number = NaN | NegInfinity | Finite real | PosInfinity

text \<open>The operator \<^verbatim>\<open><\<close>: false as soon as one side is \<^verbatim>\<open>NaN\<close>.\<close>

fun js_lt :: "js_number \<Rightarrow> js_number \<Rightarrow> bool" where
  "js_lt NaN y = False"
| "js_lt x NaN = False"
| "js_lt PosInfinity y = False"
| "js_lt x NegInfinity = False"
| "js_lt NegInfinity y = True"
| "js_lt x PosInfinity = True"
| "js_lt (Finite a) (Finite b) = (a < b)"

definition js_gt :: "js_number \<Rightarrow> js_number \<Rightarrow> bool" where
  "js_gt x y = js_lt y x"

definition js_le :: "js_number \<Rightarrow> js_number \<Rightarrow> bool" where
  "js_le x y = (x \<noteq> NaN \<and> y \<noteq> NaN \<and> \<not> js_lt y x)"

definition js_strict_eq :: "js_number \<Rightarrow> js_number \<Rightarrow> bool" where
  "js_strict_eq x y = (x \<noteq> NaN \<and> y \<noteq> NaN \<and> x = y)"

definition isNaN :: "js_number \<Rightarrow> bool" where
  "isNaN x = (x = NaN)"

text \<open>
  The numeric fields of the form do not always hold a number. The inputs are bound with
  \<^verbatim>\<open>v-model.number\<close>: Vue stores the parsed number, or, when the text of the input does
  not parse, the input's value as it is, and the value of a cleared or ill-formed
  \<^verbatim>\<open>type="number"\<close> input is the empty string. \<^verbatim>\<open>handleMapClick\<close> stores
  \<^verbatim>\<open>lat\<close> and \<^verbatim>\<open>lng\<close> of the payload of the map's event, which may be
  \<^verbatim>\<open>undefined\<close>. On such a value the operators coerce: \<^verbatim>\<open>isNaN\<close> and the
  comparisons with a number apply \<^verbatim>\<open>ToNumber\<close> first (the empty string is 0,
  \<^verbatim>\<open>undefined\<close> is \<^verbatim>\<open>NaN\<close>), and \<^verbatim>\<open>===\<close> with a number is false for a value
  that is not a number.
\<close>

datatype field_value = Num js_number | EmptyString | Undefined

fun ToNumber :: "field_value \<Rightarrow> js_number" where
  "ToNumber (Num x) = x"
| "ToNumber EmptyString = Finite 0"
| "ToNumber Undefined = NaN"

definition strict_equals :: "field_value \<Rightarrow> js_number \<Rightarrow> bool" where
  "strict_equals v n = (case v of Num x \<Rightarrow> js_strict_eq x n | _ \<Rightarrow> False)"

definition global_isNaN :: "field_value \<Rightarrow> bool" where
  "global_isNaN v = isNaN (ToNumber v)"

definition less_than :: "field_value \<Rightarrow> js_number \<Rightarrow> bool" where
  "less_than v n = js_lt (ToNumber v) n"

definition greater_than :: "field_value \<Rightarrow> js_number \<Rightarrow> bool" where
  "greater_than v n = js_gt (ToNumber v) n"

definition less_equal :: "field_value \<Rightarrow> js_number \<Rightarrow> bool" where
  "less_equal v n = js_le (ToNumber v) n"

text \<open>
  A string typed into the form is a sequence of UTF-16 code units.
  \<^verbatim>\<open>String.prototype.trim\<close> strips the ECMAScript white space and line terminator
  code points from both ends; all of them are single code units.
  Message texts, storage keys, header values and configuration strings, of which the code
  only tests equality, emptiness or an ASCII substring, are HOL strings.
\<close>

type_synonym js_string = "16 word list"

definition isWhiteSpace :: "16 word \<Rightarrow> bool" where
  "isWhiteSpace c =
     (c \<in> {0x9, 0xA, 0xB, 0xC, 0xD, 0x20, 0xA0, 0x1680, 0x2028, 0x2029, 0x202F, 0x205F,
            0x3000, 0xFEFF}
      \<or> (0x2000 \<le> c \<and> c \<le> 0x200A))"

definition trim :: "js_string \<Rightarrow> js_string" where
  "trim s = rev (dropWhile isWhiteSpace (rev (dropWhile isWhiteSpace s)))"

subsection \<open>The station form: \<^verbatim>\<open>validateForm\<close>\<close>

text \<open>
  \<^verbatim>\<open>StationInput\<close> as the form initialises it. The type of the numeric fields is a
  parameter; the form and the map hold field values in them.
\<close>

record 'n Location =
  latitude :: 'n
  longitude :: 'n
  address :: "js_string option"

record 'n StationInput =
  name :: js_string
  location :: "'n Location"
  status :: string
  powerOutput :: 'n
  connectorType :: js_string

text \<open>The reactive object \<^verbatim>\<open>formErrors\<close>; the empty string means no error.\<close>

record FormErrors =
  e_name :: string
  e_latitude :: string
  e_longitude :: string
  e_powerOutput :: string
  e_connectorType :: string
  e_form :: string

text \<open>
  \<^verbatim>\<open>validateForm\<close> reads \<^verbatim>\<open>stationData\<close>, overwrites \<^verbatim>\<open>formErrors\<close> with a
  fresh object and fills it; it returns \<^verbatim>\<open>isValid\<close>. The model returns the flag together
  with the new \<^verbatim>\<open>formErrors\<close>. The checks come in the order of the source.
\<close>

definition validateForm :: "field_value StationInput \<Rightarrow> bool \<times> FormErrors" where
  "validateForm stationData =
    (let isValid = True;
         formErrors = \<lparr>e_name = '''', e_latitude = '''', e_longitude = '''',
                       e_powerOutput = '''', e_connectorType = '''', e_form = ''''\<rparr>;
         (isValid, formErrors) =
           (if trim (name stationData) = []
            then (False, formErrors\<lparr>e_name := ''Station name is required''\<rparr>)
            else (isValid, formErrors));
         (isValid, formErrors) =
           (if strict_equals (latitude (location stationData)) (Finite 0)
               \<or> global_isNaN (latitude (location stationData))
            then (False, formErrors\<lparr>e_latitude :=
                           ''Latitude is required and must be a number''\<rparr>)
            else if less_than (latitude (location stationData)) (Finite (- 90))
               \<or> greater_than (latitude (location stationData)) (Finite 90)
            then (False, formErrors\<lparr>e_latitude := ''Latitude must be between -90 and 90''\<rparr>)
            else (isValid, formErrors));
         (isValid, formErrors) =
           (if strict_equals (longitude (location stationData)) (Finite 0)
               \<or> global_isNaN (longitude (location stationData))
            then (False, formErrors\<lparr>e_longitude :=
                           ''Longitude is required and must be a number''\<rparr>)
            else if less_than (longitude (location stationData)) (Finite (- 180))
               \<or> greater_than (longitude (location stationData)) (Finite 180)
            then (False, formErrors\<lparr>e_longitude :=
                           ''Longitude must be between -180 and 180''\<rparr>)
            else (isValid, formErrors));
         (isValid, formErrors) =
           (if less_equal (powerOutput stationData) (Finite 0) \<or> global_isNaN (powerOutput stationData)
            then (False, formErrors\<lparr>e_powerOutput :=
                           ''Power output is required and must be a positive number''\<rparr>)
            else (isValid, formErrors));
         (isValid, formErrors) =
           (if trim (connectorType stationData) = []
            then (False, formErrors\<lparr>e_connectorType := ''Connector type is required''\<rparr>)
            else (isValid, formErrors))
     in (isValid, formErrors))"

text \<open>
  The specification's words for the fields: a number in a closed interval (so neither
  \<^verbatim>\<open>NaN\<close> nor an infinity, nor a value that is not a number), and a positive number.
\<close>

definition number_in_range :: "real \<Rightarrow> real \<Rightarrow> field_value \<Rightarrow> bool" where
  "number_in_range lo hi v =
     (case v of Num (Finite r) \<Rightarrow> lo \<le> r \<and> r \<le> hi | _ \<Rightarrow> False)"

definition positive_number :: "field_value \<Rightarrow> bool" where
  "positive_number v =
     (case v of Num (Finite r) \<Rightarrow> 0 < r | Num PosInfinity \<Rightarrow> True | _ \<Rightarrow> False)"

text \<open>A station on the equator.\<close>

definition equator_station :: "field_value StationInput" where
  "equator_station =
     \<lparr>name = [0x4D, 0x61, 0x69, 0x6E],
      location = \<lparr>latitude = Num (Finite 0), longitude = Num (Finite (- 73)), address = None\<rparr>,
      status = ''active'', powerOutput = Num (Finite 50),
      connectorType = [0x43, 0x43, 0x53]\<rparr>"

text \<open>The scenario station of the specification: Main St at (40, -73), 50 kW, CCS.\<close>

definition main_st_station :: "field_value StationInput" where
  "main_st_station =
     \<lparr>name = [0x4D, 0x61, 0x69, 0x6E, 0x20, 0x53, 0x74],
      location = \<lparr>latitude = Num (Finite 40), longitude = Num (Finite (- 73)), address = None\<rparr>,
      status = ''active'', powerOutput = Num (Finite 50),
      connectorType = [0x43, 0x43, 0x53]\<rparr>"

text \<open>The same station after the user has cleared the latitude input.\<close>

definition cleared_latitude_station :: "field_value StationInput" where
  "cleared_latitude_station =
     \<lparr>name = [0x4D, 0x61, 0x69, 0x6E, 0x20, 0x53, 0x74],
      location = \<lparr>latitude = EmptyString, longitude = Num (Finite (- 73)), address = None\<rparr>,
      status = ''active'', powerOutput = Num (Finite 50),
      connectorType = [0x43, 0x43, 0x53]\<rparr>"

subsection \<open>Values that may be missing, and thrown errors\<close>

text \<open>
  A value of type \<^verbatim>\<open>string | null | undefined\<close> is a \<open>string option\<close>. The
  conditions \<^verbatim>\<open>if (v)\<close>, \<^verbatim>\<open>!v\<close>, \<^verbatim>\<open>a && b\<close> and \<^verbatim>\<open>a || b\<close> test
  truthiness: the empty string is as falsy as \<^verbatim>\<open>null\<close>.
\<close>

definition truthy :: "string option \<Rightarrow> bool" where
  "truthy v = (case v of None \<Rightarrow> False | Some s \<Rightarrow> s \<noteq> [])"

text \<open>
  What a \<^verbatim>\<open>throw\<close> or a rejected promise carries: an \<^verbatim>\<open>Error\<close> object of the runtime
  (the browser's \<^verbatim>\<open>QuotaExceededError\<close> is one) or of the code, with its message, or an \<^verbatim>\<open>AxiosError\<close>, which may hold the server's
  reply (\<^verbatim>\<open>err.response?.data?.message\<close>, \<open>None\<close> when a link of the chain is missing).
\<close>

datatype js_error =
  Error string
| TypeError string
| SyntaxError string
| AxiosError string "string option"

fun message :: "js_error \<Rightarrow> string" where
  "message (Error m) = m"
| "message (TypeError m) = m"
| "message (SyntaxError m) = m"
| "message (AxiosError m r) = m"

fun isAxiosError :: "js_error \<Rightarrow> bool" where
  "isAxiosError (AxiosError m r) = True"
| "isAxiosError e = False"

fun response_data_message :: "js_error \<Rightarrow> string option" where
  "response_data_message (AxiosError m r) = r"
| "response_data_message e = None"

subsection \<open>The backend entry point: CORS gate\<close>

text \<open>
  The allow-list of \<^verbatim>\<open>backend/index.js\<close>, and the one of the two other copies of the
  entry point in the repository, which still carries the placeholder for the deployed
  frontend and tests \<^verbatim>\<open>indexOf(origin) !== -1\<close> where the first uses \<^verbatim>\<open>includes\<close>.
\<close>

definition allowedOrigins :: "string list" where
  "allowedOrigins =
     [''http://localhost:5173'', ''https://test-project-frontend-test.vercel.app'']"

definition allowedOrigins_placeholder :: "string list" where
  "allowedOrigins_placeholder =
     [''http://localhost:5173'', ''https://your-deployed-frontend-domain.vercel.app'']"

definition includes_js :: "'a list \<Rightarrow> 'a \<Rightarrow> bool" where
  "includes_js xs x = (x \<in> set xs)"

fun indexOf :: "'a list \<Rightarrow> 'a \<Rightarrow> int" where
  "indexOf [] x = - 1"
| "indexOf (y # ys) x =
     (if y = x then 0 else (let i = indexOf ys x in if i = - 1 then - 1 else i + 1))"

text \<open>
  The \<^verbatim>\<open>origin\<close> function handed to the \<^verbatim>\<open>cors\<close> middleware. It receives the value of
  the request's Origin header (\<open>None\<close> when the request has none) and answers through
  its callback: \<^verbatim>\<open>callback(null, true)\<close> is \<open>Inr True\<close>,
  \<^verbatim>\<open>callback(new Error(...))\<close> is \<open>Inl\<close> of the error.
\<close>

definition cors_origin :: "string option \<Rightarrow> js_error + bool" where
  "cors_origin origin =
     (case origin of
        None \<Rightarrow> Inr True
      | Some s \<Rightarrow>
          if \<not> truthy origin \<or> includes_js allowedOrigins s then Inr True
          else Inl (Error ''Not allowed by CORS''))"

definition cors_origin_placeholder :: "string option \<Rightarrow> js_error + bool" where
  "cors_origin_placeholder origin =
     (case origin of
        None \<Rightarrow> Inr True
      | Some s \<Rightarrow>
          if \<not> truthy origin \<or> indexOf allowedOrigins_placeholder s \<noteq> - 1 then Inr True
          else Inl (Error ''Not allowed by CORS''))"

subsection \<open>The backend entry point: global error handler\<close>

text \<open>
  The last middleware, \<^verbatim>\<open>(err, req, res, next)\<close>. It logs \<^verbatim>\<open>err.stack\<close>, sets the
  status and sends a JSON object with the keys \<^verbatim>\<open>message\<close> and \<^verbatim>\<open>error\<close>. The
  response is the status code with the body, an object literal kept as the list of its
  keys and values. \<^verbatim>\<open>process.env.NODE_ENV\<close> is \<open>None\<close> when the variable is unset.
  The handler is the same in the three copies of the entry point.
\<close>

datatype json_value = JsonNull | JsonString string

record Response =
  statusCode :: nat
  body :: "(string \<times> json_value) list option"

datatype log_entry = LogStack js_error | LogText string | LogTextError string js_error

definition errorHandler ::
  "string option \<Rightarrow> js_error \<Rightarrow> Response \<Rightarrow> Response \<times> log_entry list" where
  "errorHandler NODE_ENV err res =
     (let logged = [LogStack err];
          res = res\<lparr>statusCode := 500\<rparr>;
          res = res\<lparr>body := Some
                  [(''message'', JsonString ''An unexpected error occurred''),
                   (''error'', if NODE_ENV = Some ''production'' then JsonNull
                               else JsonString (message err))]\<rparr>
      in (res, logged))"

subsection \<open>The backend entry point: startup\<close>

text \<open>
  \<^verbatim>\<open>connectDB().then(onFulfilled).catch(onRejected)\<close>. A promise is pending for ever,
  fulfilled or rejected; \<^verbatim>\<open>then\<close> runs its handler on a fulfilled promise only,
  \<^verbatim>\<open>catch\<close> on a rejected one only, and a handler that throws rejects the promise
  the call returns. Handlers act on the process: what it logged, the call of
  \<^verbatim>\<open>app.listen\<close> it made, whether the listener is bound, the exit code once
  \<^verbatim>\<open>process.exit\<close> ran.
\<close>

datatype 'a promise = Pending | Fulfilled 'a | Rejected js_error

record 'p Process =
  console :: "log_entry list"
  listen_calls :: "'p list"
  listening :: "'p option"
  exit_code :: "nat option"

definition promise_then ::
  "'a promise \<Rightarrow> ('a \<Rightarrow> 's \<Rightarrow> (js_error + 'b) \<times> 's) \<Rightarrow> 's \<Rightarrow> 'b promise \<times> 's" where
  "promise_then p onFulfilled s =
     (case p of
        Pending \<Rightarrow> (Pending, s)
      | Rejected e \<Rightarrow> (Rejected e, s)
      | Fulfilled v \<Rightarrow>
          (case onFulfilled v s of
             (Inr r, s') \<Rightarrow> (Fulfilled r, s')
           | (Inl e, s') \<Rightarrow> (Rejected e, s')))"

definition promise_catch ::
  "'a promise \<Rightarrow> (js_error \<Rightarrow> 's \<Rightarrow> (js_error + 'a) \<times> 's) \<Rightarrow> 's \<Rightarrow> 'a promise \<times> 's" where
  "promise_catch p onRejected s =
     (case p of
        Pending \<Rightarrow> (Pending, s)
      | Fulfilled v \<Rightarrow> (Fulfilled v, s)
      | Rejected e \<Rightarrow>
          (case onRejected e s of
             (Inr r, s') \<Rightarrow> (Fulfilled r, s')
           | (Inl e', s') \<Rightarrow> (Rejected e', s')))"

text \<open>
  \<^verbatim>\<open>app.listen(PORT, callback)\<close> belongs to Express. It either throws at once (a port
  out of range, say), which the parameter \<open>listen_throws\<close> decides, or binds the
  listener and runs the callback, which logs three lines.
\<close>

definition app_listen ::
  "js_error option \<Rightarrow> 'p \<Rightarrow> 'p Process \<Rightarrow> (js_error + unit) \<times> 'p Process" where
  "app_listen listen_throws PORT pr =
     (let pr = pr\<lparr>listen_calls := listen_calls pr @ [PORT]\<rparr>
      in case listen_throws of
           Some e \<Rightarrow> (Inl e, pr)
         | None \<Rightarrow>
             (Inr (), pr\<lparr>listening := Some PORT,
                         console := console pr @
                           [LogText ''Server running on port'',
                            LogText ''Backend (local)'',
                            LogText ''Backend (Render)'']\<rparr>))"

definition on_db_connected ::
  "js_error option \<Rightarrow> 'p \<Rightarrow> unit \<Rightarrow> 'p Process \<Rightarrow> (js_error + unit) \<times> 'p Process" where
  "on_db_connected listen_throws PORT v pr = app_listen listen_throws PORT pr"

definition on_db_failed :: "js_error \<Rightarrow> 'p Process \<Rightarrow> (js_error + unit) \<times> 'p Process" where
  "on_db_failed err pr =
     (let pr = pr\<lparr>console := console pr @ [LogTextError ''Failed to connect to database:'' err]\<rparr>;
          pr = pr\<lparr>exit_code := Some 1\<rparr>
      in (Inr (), pr))"

definition fresh_process :: "'p Process" where
  "fresh_process = \<lparr>console = [], listen_calls = [], listening = None, exit_code = None\<rparr>"

text \<open>The startup chain, from the settled (or pending) state of \<^verbatim>\<open>connectDB()\<close>.\<close>

definition startup :: "js_error option \<Rightarrow> 'p \<Rightarrow> unit promise \<Rightarrow> unit promise \<times> 'p Process" where
  "startup listen_throws PORT connectDB =
     (let (p, pr) = promise_then connectDB (on_db_connected listen_throws PORT) fresh_process
      in promise_catch p on_db_failed pr)"

subsection \<open>The auth store\<close>

record User =
  user_id :: string
  user_name :: string
  user_email :: string
  user_role :: string

text \<open>
  The four refs of the store, and what its actions share with the rest of the page: the
  browser's \<^verbatim>\<open>localStorage\<close>, the default header
  \<^verbatim>\<open>axios.defaults.headers.common['Authorization']\<close> (\<open>None\<close> when the key is not
  there), the paths handed to \<^verbatim>\<open>router.push\<close> and the lines of \<^verbatim>\<open>console.error\<close>.
  The storage is a map from keys to strings.
\<close>

record AuthWorld =
  user :: "User option"
  token :: "string option"
  loading :: bool
  error :: "string option"
  localStorage :: "string \<Rightarrow> string option"
  Authorization :: "string option"
  pushed :: "string list"
  logged :: "log_entry list"

definition getItem :: "AuthWorld \<Rightarrow> string \<Rightarrow> string option" where
  "getItem w k = localStorage w k"

definition removeItem :: "string \<Rightarrow> AuthWorld \<Rightarrow> AuthWorld" where
  "removeItem k w = w\<lparr>localStorage := (localStorage w)(k := None)\<rparr>"

definition router_push :: "string \<Rightarrow> AuthWorld \<Rightarrow> AuthWorld" where
  "router_push p w = w\<lparr>pushed := pushed w @ [p]\<rparr>"

text \<open>The store as \<^verbatim>\<open>defineStore\<close> sets it up, in a browser with the given storage.\<close>

definition initial_world :: "(string \<Rightarrow> string option) \<Rightarrow> AuthWorld" where
  "initial_world storage =
     \<lparr>user = None, token = None, loading = False, error = None, localStorage = storage,
      Authorization = None, pushed = [], logged = []\<rparr>"

text \<open>\<^verbatim>\<open>isLoggedIn = () => !!token.value\<close>.\<close>

definition isLoggedIn :: "AuthWorld \<Rightarrow> bool" where
  "isLoggedIn w = truthy (token w)"

definition setAuthHeader :: "string option \<Rightarrow> AuthWorld \<Rightarrow> AuthWorld" where
  "setAuthHeader newToken w =
     (case newToken of
        None \<Rightarrow> w\<lparr>Authorization := None\<rparr>
      | Some t \<Rightarrow>
          if truthy newToken then w\<lparr>Authorization := Some (''Bearer '' @ t)\<rparr>
          else w\<lparr>Authorization := None\<rparr>)"

text \<open>
  \<^verbatim>\<open>checkAuth\<close>. \<^verbatim>\<open>JSON.parse\<close> is the runtime's: the parameter \<open>JSON_parse\<close> answers
  \<open>Inl\<close> of the \<^verbatim>\<open>SyntaxError\<close> it throws, or \<open>Inr\<close> of the parsed value, which the
  code takes for a \<^verbatim>\<open>User\<close> (\<open>None\<close> is the value \<^verbatim>\<open>null\<close>). The \<^verbatim>\<open>try\<close> block
  holds this call alone, and the \<^verbatim>\<open>catch\<close> block is the \<open>Inl\<close> branch. An action
  returns what it returns or throws, with the world it leaves.
\<close>

definition checkAuth ::
  "(string \<Rightarrow> js_error + User option) \<Rightarrow> AuthWorld \<Rightarrow> (js_error + unit) \<times> AuthWorld" where
  "checkAuth JSON_parse w =
     (let storedToken = getItem w ''token'';
          storedUser = getItem w ''user''
      in case (storedToken, storedUser) of
           (Some t, Some u) \<Rightarrow>
             if truthy storedToken \<and> truthy storedUser then
               (let w = w\<lparr>token := Some t\<rparr>;
                    w = (case JSON_parse u of
                           Inr parsed \<Rightarrow> w\<lparr>user := parsed\<rparr>
                         | Inl e \<Rightarrow>
                             (let w = w\<lparr>logged := logged w @
                                        [LogTextError
                                           ''Failed to parse user data from localStorage:'' e]\<rparr>;
                                  w = removeItem ''user'' w
                              in w\<lparr>user := None\<rparr>));
                    w = setAuthHeader (Some t) w
                in (Inr (), w))
             else (Inr (), w)
         | _ \<Rightarrow> (Inr (), w))"

text \<open>
  \<^verbatim>\<open>login\<close> and \<^verbatim>\<open>register\<close>. The argument \<open>posted\<close> is how the awaited
  \<^verbatim>\<open>axios.post\<close> settles: \<open>Inr\<close> of \<^verbatim>\<open>response.data\<close>, which has the shape the
  API gives it, an object with a \<^verbatim>\<open>token\<close> string and a \<^verbatim>\<open>user\<close>, or \<open>Inl\<close> of
  the rejection. The \<^verbatim>\<open>try\<close> block goes on with the two assignments to the refs, the
  two calls of \<^verbatim>\<open>localStorage.setItem\<close>, \<^verbatim>\<open>setAuthHeader\<close> and
  \<^verbatim>\<open>router.push\<close>. \<^verbatim>\<open>setItem\<close> throws when the browser refuses the write (the
  storage is full, or its quota is zero): the parameter \<open>storage_full\<close> says, for the
  content of the storage, the key and the value, whether it does. The \<^verbatim>\<open>catch\<close> block
  receives whatever the \<^verbatim>\<open>try\<close> block throws, the rejection of the request as well as
  the error of \<^verbatim>\<open>setItem\<close>, with the refs as the \<^verbatim>\<open>try\<close> block left them.
  \<^verbatim>\<open>JSON.stringify\<close> is the parameter \<open>JSON_stringify\<close>. The operator
  \<^verbatim>\<open>a || b\<close> on a message is \<open>or_else\<close>. The \<^verbatim>\<open>finally\<close> block runs last on
  every path.
\<close>

record ResponseData =
  data_token :: string
  data_user :: User

definition or_else :: "string option \<Rightarrow> string \<Rightarrow> string" where
  "or_else a b = (case a of None \<Rightarrow> b | Some s \<Rightarrow> if truthy a then s else b)"

definition setItem ::
  "((string \<Rightarrow> string option) \<Rightarrow> string \<Rightarrow> string \<Rightarrow> bool) \<Rightarrow> string \<Rightarrow> string \<Rightarrow> AuthWorld \<Rightarrow>
   (js_error + unit) \<times> AuthWorld" where
  "setItem storage_full k v w =
     (if storage_full (localStorage w) k v then (Inl (Error ''QuotaExceededError''), w)
      else (Inr (), w\<lparr>localStorage := (localStorage w)(k \<mapsto> v)\<rparr>))"

definition login ::
  "((string \<Rightarrow> string option) \<Rightarrow> string \<Rightarrow> string \<Rightarrow> bool) \<Rightarrow> (User \<Rightarrow> string) \<Rightarrow>
   js_error + ResponseData \<Rightarrow> AuthWorld \<Rightarrow> (js_error + bool) \<times> AuthWorld" where
  "login storage_full JSON_stringify posted w =
     (let w = w\<lparr>loading := True\<rparr>;
          w = w\<lparr>error := None\<rparr>;
          (r, w) =
            (case posted of
               Inl err \<Rightarrow> (Inl err, w)
             | Inr d \<Rightarrow>
                 (let w = w\<lparr>token := Some (data_token d)\<rparr>;
                      w = w\<lparr>user := Some (data_user d)\<rparr>
                  in case setItem storage_full ''token'' (data_token d) w of
                       (Inl e, w) \<Rightarrow> (Inl e, w)
                     | (Inr u, w) \<Rightarrow>
                         (case setItem storage_full ''user''
                                 (JSON_stringify (data_user d)) w of
                            (Inl e, w) \<Rightarrow> (Inl e, w)
                          | (Inr u, w) \<Rightarrow>
                              (let w = setAuthHeader (Some (data_token d)) w;
                                   w = router_push ''/dashboard'' w
                               in (Inr True, w)))));
          (r, w) =
            (case r of
               Inr b \<Rightarrow> (Inr b, w)
             | Inl err \<Rightarrow>
                 if isAxiosError err then
                   (Inr False,
                    w\<lparr>error := Some (or_else (response_data_message err)
                                   ''Login failed. Please check your credentials.'')\<rparr>)
                 else
                   (let w = w\<lparr>error := Some ''An unexpected error occurred during login.''\<rparr>;
                        w = w\<lparr>logged := logged w @ [LogTextError ''Login error:'' err]\<rparr>
                    in (Inr False, w)));
          w = w\<lparr>loading := False\<rparr>
      in (r, w))"

definition register ::
  "((string \<Rightarrow> string option) \<Rightarrow> string \<Rightarrow> string \<Rightarrow> bool) \<Rightarrow> (User \<Rightarrow> string) \<Rightarrow>
   js_error + ResponseData \<Rightarrow> AuthWorld \<Rightarrow> (js_error + bool) \<times> AuthWorld" where
  "register storage_full JSON_stringify posted w =
     (let w = w\<lparr>loading := True\<rparr>;
          w = w\<lparr>error := None\<rparr>;
          (r, w) =
            (case posted of
               Inl err \<Rightarrow> (Inl err, w)
             | Inr d \<Rightarrow>
                 (let w = w\<lparr>token := Some (data_token d)\<rparr>;
                      w = w\<lparr>user := Some (data_user d)\<rparr>
                  in case setItem storage_full ''token'' (data_token d) w of
                       (Inl e, w) \<Rightarrow> (Inl e, w)
                     | (Inr u, w) \<Rightarrow>
                         (case setItem storage_full ''user''
                                 (JSON_stringify (data_user d)) w of
                            (Inl e, w) \<Rightarrow> (Inl e, w)
                          | (Inr u, w) \<Rightarrow>
                              (let w = setAuthHeader (Some (data_token d)) w;
                                   w = router_push ''/dashboard'' w
                               in (Inr True, w)))));
          (r, w) =
            (case r of
               Inr b \<Rightarrow> (Inr b, w)
             | Inl err \<Rightarrow>
                 if isAxiosError err then
                   (Inr False,
                    w\<lparr>error := Some (or_else (response_data_message err)
                                   ''Registration failed. Please try again.'')\<rparr>)
                 else
                   (let w = w\<lparr>error :=
                              Some ''An unexpected error occurred during registration.''\<rparr>;
                        w = w\<lparr>logged := logged w @ [LogTextError ''Registration error:'' err]\<rparr>
                    in (Inr False, w)));
          w = w\<lparr>loading := False\<rparr>
      in (r, w))"

definition logout :: "AuthWorld \<Rightarrow> (js_error + unit) \<times> AuthWorld" where
  "logout w =
     (let w = w\<lparr>token := None\<rparr>;
          w = w\<lparr>user := None\<rparr>;
          w = removeItem ''token'' w;
          w = removeItem ''user'' w;
          w = setAuthHeader None w;
          w = router_push ''/login'' w
      in (Inr (), w))"

text \<open>
  A session of the store: any sequence of its four actions, each \<^verbatim>\<open>login\<close> and
  \<^verbatim>\<open>register\<close> with the way its request settles.
\<close>

datatype action =
  CheckAuth
| Login "js_error + ResponseData"
| Register "js_error + ResponseData"
| Logout

fun perform ::
  "((string \<Rightarrow> string option) \<Rightarrow> string \<Rightarrow> string \<Rightarrow> bool) \<Rightarrow>
   (string \<Rightarrow> js_error + User option) \<Rightarrow> (User \<Rightarrow> string) \<Rightarrow> AuthWorld \<Rightarrow> action \<Rightarrow> AuthWorld" where
  "perform storage_full JSON_parse JSON_stringify w CheckAuth = snd (checkAuth JSON_parse w)"
| "perform storage_full JSON_parse JSON_stringify w (Login posted) =
     snd (login storage_full JSON_stringify posted w)"
| "perform storage_full JSON_parse JSON_stringify w (Register posted) =
     snd (register storage_full JSON_stringify posted w)"
| "perform storage_full JSON_parse JSON_stringify w Logout = snd (logout w)"

definition session ::
  "((string \<Rightarrow> string option) \<Rightarrow> string \<Rightarrow> string \<Rightarrow> bool) \<Rightarrow>
   (string \<Rightarrow> js_error + User option) \<Rightarrow> (User \<Rightarrow> string) \<Rightarrow> (string \<Rightarrow> string option) \<Rightarrow>
   action list \<Rightarrow> AuthWorld" where
  "session storage_full JSON_parse JSON_stringify storage actions =
     foldl (perform storage_full JSON_parse JSON_stringify) (initial_world storage) actions"

text \<open>
  The storage accepts the writes of an action: the action is a \<^verbatim>\<open>login\<close> or a
  \<^verbatim>\<open>register\<close> whose request succeeds and neither of its two \<^verbatim>\<open>setItem\<close> calls is
  refused, or it is an action that writes nothing. It accepts the writes of a session when
  it accepts those of every action, in the state the action starts from.
\<close>

definition accepts_both ::
  "((string \<Rightarrow> string option) \<Rightarrow> string \<Rightarrow> string \<Rightarrow> bool) \<Rightarrow> (User \<Rightarrow> string) \<Rightarrow> AuthWorld \<Rightarrow>
   ResponseData \<Rightarrow> bool" where
  "accepts_both storage_full JSON_stringify w d =
     (\<not> storage_full (localStorage w) ''token'' (data_token d)
      \<and> \<not> storage_full ((localStorage w)(''token'' \<mapsto> data_token d)) ''user''
            (JSON_stringify (data_user d)))"

fun accepts_writes_of ::
  "((string \<Rightarrow> string option) \<Rightarrow> string \<Rightarrow> string \<Rightarrow> bool) \<Rightarrow> (User \<Rightarrow> string) \<Rightarrow> AuthWorld \<Rightarrow>
   action \<Rightarrow> bool" where
  "accepts_writes_of storage_full JSON_stringify w (Login (Inr d)) =
     accepts_both storage_full JSON_stringify w d"
| "accepts_writes_of storage_full JSON_stringify w (Register (Inr d)) =
     accepts_both storage_full JSON_stringify w d"
| "accepts_writes_of storage_full JSON_stringify w a = True"

fun writes_accepted ::
  "((string \<Rightarrow> string option) \<Rightarrow> string \<Rightarrow> string \<Rightarrow> bool) \<Rightarrow>
   (string \<Rightarrow> js_error + User option) \<Rightarrow> (User \<Rightarrow> string) \<Rightarrow> AuthWorld \<Rightarrow> action list \<Rightarrow> bool" where
  "writes_accepted storage_full JSON_parse JSON_stringify w [] = True"
| "writes_accepted storage_full JSON_parse JSON_stringify w (a # rest) =
     (accepts_writes_of storage_full JSON_stringify w a
      \<and> writes_accepted storage_full JSON_parse JSON_stringify
           (perform storage_full JSON_parse JSON_stringify w a) rest)"

text \<open>
  The agreement of the header with the token, in the specification's words (the header is
  \<^verbatim>\<open>Bearer <token>\<close> whenever the token is not null, absent whenever it is null), and
  as the code keeps it (the empty token counts as no token).
\<close>

definition header_agrees_as_specified :: "AuthWorld \<Rightarrow> bool" where
  "header_agrees_as_specified w =
     (case token w of
        None \<Rightarrow> Authorization w = None
      | Some t \<Rightarrow> Authorization w = Some (''Bearer '' @ t))"

definition header_agrees :: "AuthWorld \<Rightarrow> bool" where
  "header_agrees w =
     (case token w of
        None \<Rightarrow> Authorization w = None
      | Some t \<Rightarrow> Authorization w = (if t = [] then None else Some (''Bearer '' @ t)))"

text \<open>
  Sample data for the closed instances below: a user, the serialiser and the parser handed
  in for the runtime's (the parser knows \<^verbatim>\<open>null\<close> and rejects every other text, as
  \<^verbatim>\<open>JSON.parse\<close> rejects the empty text and the text \<^verbatim>\<open>{bad\<close>).
\<close>

definition alice :: User where
  "alice = \<lparr>user_id = ''1'', user_name = ''Alice'', user_email = ''alice@example.org'',
            user_role = ''admin''\<rparr>"

definition sample_stringify :: "User \<Rightarrow> string" where
  "sample_stringify u =
     ''{id:'' @ user_id u @ '',name:'' @ user_name u @ '',email:'' @ user_email u
       @ '',role:'' @ user_role u @ ''}''"

definition sample_parse :: "string \<Rightarrow> js_error + User option" where
  "sample_parse s =
     (if s = ''null'' then Inr None else Inl (SyntaxError ''Unexpected token''))"

definition storage_of :: "(string \<times> string) list \<Rightarrow> string \<Rightarrow> string option" where
  "storage_of entries = map_of entries"

text \<open>A browser that accepts every write, and one whose storage takes none.\<close>

definition roomy_storage :: "(string \<Rightarrow> string option) \<Rightarrow> string \<Rightarrow> string \<Rightarrow> bool" where
  "roomy_storage content k v = False"

definition full_storage :: "(string \<Rightarrow> string option) \<Rightarrow> string \<Rightarrow> string \<Rightarrow> bool" where
  "full_storage content k v = True"

subsection \<open>The router guard\<close>

text \<open>
  A route record of the table: its path, its name, its view component, and the flag
  \<^verbatim>\<open>meta.requiresAuth\<close> (\<open>None\<close> for a record without \<^verbatim>\<open>meta\<close>, whose flag reads
  \<^verbatim>\<open>undefined\<close>).
\<close>

record RouteRecord =
  path :: string
  route_name :: string
  component :: string
  meta_requiresAuth :: "bool option"

definition routes :: "RouteRecord list" where
  "routes =
     [\<lparr>path = ''/'', route_name = ''home'', component = ''HomePage'',
       meta_requiresAuth = None\<rparr>,
      \<lparr>path = ''/login'', route_name = ''login'', component = ''LoginPage'',
       meta_requiresAuth = None\<rparr>,
      \<lparr>path = ''/register'', route_name = ''register'', component = ''RegisterPage'',
       meta_requiresAuth = None\<rparr>,
      \<lparr>path = ''/dashboard'', route_name = ''dashboard'', component = ''DashboardPage'',
       meta_requiresAuth = Some True\<rparr>,
      \<lparr>path = ''/stations'', route_name = ''stations'', component = ''StationListPage'',
       meta_requiresAuth = Some True\<rparr>,
      \<lparr>path = ''/stations/new'', route_name = ''station-new'', component = ''StationFormPage'',
       meta_requiresAuth = Some True\<rparr>,
      \<lparr>path = ''/stations/:id'', route_name = ''station-detail'',
       component = ''StationDetailPage'', meta_requiresAuth = Some True\<rparr>,
      \<lparr>path = ''/stations/:id/edit'', route_name = ''station-edit'',
       component = ''StationFormPage'', meta_requiresAuth = Some True\<rparr>,
      \<lparr>path = ''/map'', route_name = ''map'', component = ''MapPage'',
       meta_requiresAuth = None\<rparr>,
      \<lparr>path = ''/:pathMatch(.*)*'', route_name = ''not-found'', component = ''NotFoundPage'',
       meta_requiresAuth = None\<rparr>]"

text \<open>
  The location a navigation goes to, with its matched records. Matching is vue-router's.
  No record of the table has children, so a location matches one record; a location whose
  path is, letter for letter, the path of a record matches that record (a static path
  ranks above a parameter and above the catch-all).
\<close>

record RouteLocation =
  fullPath :: string
  matched :: "RouteRecord list"

definition resolve_literal :: "string \<Rightarrow> RouteLocation" where
  "resolve_literal p = \<lparr>fullPath = p, matched = filter (\<lambda>record. path record = p) routes\<rparr>"

text \<open>
  The guard answers through \<^verbatim>\<open>next\<close>: \<^verbatim>\<open>next()\<close> lets the navigation proceed,
  \<^verbatim>\<open>next('/login')\<close> redirects it.
\<close>

datatype navigation = Next | NextTo string

definition beforeEach :: "RouteLocation \<Rightarrow> RouteLocation \<Rightarrow> AuthWorld \<Rightarrow> navigation" where
  "beforeEach to_location from_location authStore =
     (let requiresAuth =
            list_ex (\<lambda>record. meta_requiresAuth record = Some True) (matched to_location)
      in if requiresAuth \<and> \<not> isLoggedIn authStore then NextTo ''/login'' else Next)"

subsection \<open>The station map: \<^verbatim>\<open>updateMarkers\<close>\<close>

text \<open>
  A station as the API delivers it: the form's fields with the identifier and the two
  timestamps.
\<close>

record 'n Station = "'n StationInput" +
  station_id :: string
  createdAt :: string
  updatedAt :: string

text \<open>
  An entry of the constant \<^verbatim>\<open>STATION_STATUS\<close>. The constant comes from
  \<^verbatim>\<open>config\<close>, which is not among the sources at hand: it is a parameter of the
  functions below.
\<close>

record StatusOption =
  status_value :: string
  status_label :: string
  status_color :: string

text \<open>
  \<^verbatim>\<open>String.prototype.replace\<close> with a string pattern replaces the first occurrence;
  \<^verbatim>\<open>String.prototype.includes\<close> looks for a substring.
\<close>

fun replace_first :: "string \<Rightarrow> string \<Rightarrow> string \<Rightarrow> string" where
  "replace_first pat rep [] = (if pat = [] then rep else [])"
| "replace_first pat rep (c # cs) =
     (if take (length pat) (c # cs) = pat then rep @ drop (length pat) (c # cs)
      else c # replace_first pat rep cs)"

fun includes_string :: "string \<Rightarrow> string \<Rightarrow> bool" where
  "includes_string [] sub = (sub = [])"
| "includes_string (c # cs) sub =
     (take (length sub) (c # cs) = sub \<or> includes_string cs sub)"

definition marker_color :: "StatusOption list \<Rightarrow> string \<Rightarrow> string" where
  "marker_color STATION_STATUS station_status =
     (let statusObj = find (\<lambda>s. status_value s = station_status) STATION_STATUS;
          statusColorClass =
            or_else (map_option (\<lambda>s. replace_first ''bg-'' '''' (status_color s)) statusObj)
              ''neutral-500''
      in if includes_string statusColorClass ''primary'' then ''#0066cc''
         else if includes_string statusColorClass ''secondary'' then ''#00cc66''
         else if includes_string statusColorClass ''danger'' then ''#cc3300''
         else ''#6c757d'')"

text \<open>
  Leaflet is the map library, outside the repository. \<^verbatim>\<open>L.marker\<close> and
  \<^verbatim>\<open>bounds.extend\<close> turn the pair of coordinates they are given into a
  \<^verbatim>\<open>LatLng\<close>, whose constructor throws the error "Invalid LatLng object" when a
  coordinate is \<^verbatim>\<open>NaN\<close> under \<^verbatim>\<open>isNaN\<close>, and keeps the coordinates coerced to
  numbers otherwise (the text of the error goes on with the two coordinates, which the
  model leaves out).
\<close>

definition valid_coordinates :: "field_value Station \<Rightarrow> bool" where
  "valid_coordinates station =
     (\<not> global_isNaN (latitude (location station))
      \<and> \<not> global_isNaN (longitude (location station)))"

definition toLatLng :: "field_value \<Rightarrow> field_value \<Rightarrow> js_error + js_number \<times> js_number" where
  "toLatLng lat lng =
     (if global_isNaN lat \<or> global_isNaN lng then Inl (Error ''Invalid LatLng object'')
      else Inr (ToNumber lat, ToNumber lng))"

text \<open>
  A marker is what the code gives it: the position, the colour of the icon, the title, the
  station its popup describes and whether the popup has the details link.
  \<^verbatim>\<open>L.marker\<close> makes a new object at each call: the model numbers the markers in the
  order of their creation. The map holds the marker layers added to it and the points of
  the last \<^verbatim>\<open>fitBounds\<close> (the bounds of the code are extended by one point after the
  other). The other calls into Leaflet (\<^verbatim>\<open>divIcon\<close>, \<^verbatim>\<open>bindPopup\<close>, \<^verbatim>\<open>on\<close>,
  \<^verbatim>\<open>remove\<close>, and \<^verbatim>\<open>fitBounds\<close> on bounds that hold a point) are taken not to
  throw; the properties below rely on this for stations on the globe only.
\<close>

record Marker =
  marker_id :: nat
  latlng :: "js_number \<times> js_number"
  icon_color :: string
  title :: js_string
  popup_station :: "field_value Station"
  details_link :: bool

record LeafletMap =
  layers :: "Marker list"
  fitted :: "(js_number \<times> js_number) list option"

text \<open>The refs of the component, and the count of the markers created so far.\<close>

record MapView =
  mapInstance :: "LeafletMap option"
  markers :: "Marker list"
  created :: nat

definition marker_remove :: "Marker \<Rightarrow> MapView \<Rightarrow> MapView" where
  "marker_remove marker v =
     (case mapInstance v of
        None \<Rightarrow> v
      | Some m \<Rightarrow>
          v\<lparr>mapInstance :=
              Some (m\<lparr>layers := filter (\<lambda>l. marker_id l \<noteq> marker_id marker) (layers m)\<rparr>)\<rparr>)"

text \<open>
  \<^verbatim>\<open>L.marker([latitude, longitude], {icon, title})\<close> with the icon in the colour of
  the station's status, and the popup the code binds to it: the \<open>i\<close>-th marker created,
  or the error of the \<^verbatim>\<open>LatLng\<close> constructor.
\<close>

definition create_marker ::
  "StatusOption list \<Rightarrow> bool \<Rightarrow> nat \<Rightarrow> field_value Station \<Rightarrow> js_error + Marker" where
  "create_marker STATION_STATUS clickable i station =
     (let markerColor = marker_color STATION_STATUS (status station)
      in case toLatLng (latitude (location station)) (longitude (location station)) of
           Inl e \<Rightarrow> Inl e
         | Inr position \<Rightarrow>
             Inr \<lparr>marker_id = i,
                  latlng = position,
                  icon_color = markerColor,
                  title = name station,
                  popup_station = station,
                  details_link = clickable\<rparr>)"

text \<open>
  The body of \<^verbatim>\<open>props.stations.forEach\<close>, station after station. A throw of
  \<^verbatim>\<open>L.marker\<close> ends the loop, and \<^verbatim>\<open>updateMarkers\<close> with it; the markers made for
  the stations before stay where they are. \<^verbatim>\<open>addTo\<close> on a map that is not there
  throws a \<^verbatim>\<open>TypeError\<close>.
\<close>

fun add_station_markers ::
  "StatusOption list \<Rightarrow> bool \<Rightarrow> field_value Station list \<Rightarrow> (js_number \<times> js_number) list \<Rightarrow>
   MapView \<Rightarrow> (js_error + (js_number \<times> js_number) list) \<times> MapView" where
  "add_station_markers STATION_STATUS clickable [] bounds v = (Inr bounds, v)"
| "add_station_markers STATION_STATUS clickable (station # rest) bounds v =
     (case create_marker STATION_STATUS clickable (created v) station of
        Inl e \<Rightarrow> (Inl e, v)
      | Inr marker \<Rightarrow>
          (let v = v\<lparr>created := Suc (created v)\<rparr>
           in case mapInstance v of
                None \<Rightarrow>
                  (Inl (TypeError ''Cannot read properties of null (reading addLayer)''), v)
              | Some m \<Rightarrow>
                  (let v = v\<lparr>mapInstance := Some (m\<lparr>layers := layers m @ [marker]\<rparr>)\<rparr>;
                       bounds = bounds @ [latlng marker];
                       v = v\<lparr>markers := markers v @ [marker]\<rparr>
                   in add_station_markers STATION_STATUS clickable rest bounds v)))"

text \<open>\<^verbatim>\<open>updateMarkers\<close>, with the props \<^verbatim>\<open>stations\<close> and \<^verbatim>\<open>clickable\<close> as arguments.\<close>

definition updateMarkers ::
  "StatusOption list \<Rightarrow> field_value Station list \<Rightarrow> bool \<Rightarrow> MapView \<Rightarrow>
   (js_error + unit) \<times> MapView" where
  "updateMarkers STATION_STATUS stations clickable v =
     (let v = fold marker_remove (markers v) v;
          v = v\<lparr>markers := []\<rparr>
      in if length stations = 0 then (Inr (), v)
         else
           (case add_station_markers STATION_STATUS clickable stations [] v of
              (Inl e, v) \<Rightarrow> (Inl e, v)
            | (Inr bounds, v) \<Rightarrow>
                if length (markers v) > 0 then
                  (case mapInstance v of
                     None \<Rightarrow>
                       (Inl (TypeError ''Cannot read properties of null (reading fitBounds)''), v)
                   | Some m \<Rightarrow> (Inr (), v\<lparr>mapInstance := Some (m\<lparr>fitted := Some bounds\<rparr>)\<rparr>))
                else (Inr (), v)))"

text \<open>
  The two callers: the watcher of \<^verbatim>\<open>props.stations\<close>, and \<^verbatim>\<open>initMap\<close>, which
  creates the map when the container element is there. The template shows the placeholder
  under \<^verbatim>\<open>v-if="stations.length === 0"\<close>.
\<close>

definition watch_stations ::
  "StatusOption list \<Rightarrow> field_value Station list \<Rightarrow> bool \<Rightarrow> MapView \<Rightarrow>
   (js_error + unit) \<times> MapView" where
  "watch_stations STATION_STATUS stations clickable v =
     (if mapInstance v \<noteq> None then updateMarkers STATION_STATUS stations clickable v
      else (Inr (), v))"

definition initMap ::
  "bool \<Rightarrow> StatusOption list \<Rightarrow> field_value Station list \<Rightarrow> bool \<Rightarrow> MapView \<Rightarrow>
   (js_error + unit) \<times> MapView" where
  "initMap mapContainer STATION_STATUS stations clickable v =
     (if \<not> mapContainer then (Inr (), v)
      else
        (let v = v\<lparr>mapInstance := Some \<lparr>layers = [], fitted = None\<rparr>\<rparr>
         in updateMarkers STATION_STATUS stations clickable v))"

definition mounted_view :: MapView where
  "mounted_view = \<lparr>mapInstance = None, markers = [], created = 0\<rparr>"

definition empty_state_shown :: "field_value Station list \<Rightarrow> bool" where
  "empty_state_shown stations = (length stations = 0)"

text \<open>
  The state the component keeps between two calls: the markers on the map are those of the
  \<^verbatim>\<open>markers\<close> array, and each was created by an earlier call.
\<close>

definition view_ok :: "MapView \<Rightarrow> bool" where
  "view_ok v =
     ((case mapInstance v of None \<Rightarrow> markers v = [] | Some m \<Rightarrow> layers m = markers v)
      \<and> list_all (\<lambda>marker. marker_id marker < created v) (markers v))"

text \<open>
  The invariant of the data model for a station: its latitude is a number in [-90, 90] and
  its longitude a number in [-180, 180].
\<close>

definition on_the_globe :: "field_value Station \<Rightarrow> bool" where
  "on_the_globe station =
     (number_in_range (- 90) 90 (latitude (location station))
      \<and> number_in_range (- 180) 180 (longitude (location station)))"

text \<open>
  The marker of a station whose coordinates Leaflet accepts, and the markers a call creates
  for a list of such stations, numbered from \<open>n\<close>.
\<close>

definition marker_of :: "StatusOption list \<Rightarrow> bool \<Rightarrow> nat \<Rightarrow> field_value Station \<Rightarrow> Marker" where
  "marker_of STATION_STATUS clickable i station =
     \<lparr>marker_id = i,
      latlng = (ToNumber (latitude (location station)), ToNumber (longitude (location station))),
      icon_color = marker_color STATION_STATUS (status station),
      title = name station,
      popup_station = station,
      details_link = clickable\<rparr>"

definition new_markers ::
  "StatusOption list \<Rightarrow> bool \<Rightarrow> nat \<Rightarrow> field_value Station list \<Rightarrow> Marker list" where
  "new_markers STATION_STATUS clickable n stations =
     map (\<lambda>(i, station). marker_of STATION_STATUS clickable i station)
       (enumerate n stations)"

text \<open>
  A sample configuration and sample stations for the closed instances; the third station
  has lost its latitude.
\<close>

definition sample_status :: "StatusOption list" where
  "sample_status =
     [\<lparr>status_value = ''active'', status_label = ''Active'',
       status_color = ''bg-secondary-500''\<rparr>,
      \<lparr>status_value = ''inactive'', status_label = ''Inactive'',
       status_color = ''bg-danger-500''\<rparr>]"

definition station_a :: "field_value Station" where
  "station_a =
     \<lparr>name = [0x41],
      location = \<lparr>latitude = Num (Finite 40), longitude = Num (Finite (- 73)), address = None\<rparr>,
      status = ''active'', powerOutput = Num (Finite 50), connectorType = [0x43, 0x43, 0x53],
      station_id = ''a'', createdAt = ''2024-01-01'', updatedAt = ''2024-01-01''\<rparr>"

definition station_b :: "field_value Station" where
  "station_b =
     \<lparr>name = [0x42],
      location = \<lparr>latitude = Num (Finite 48), longitude = Num (Finite 2), address = None\<rparr>,
      status = ''inactive'', powerOutput = Num (Finite 22), connectorType = [0x43, 0x43, 0x53],
      station_id = ''b'', createdAt = ''2024-01-02'', updatedAt = ''2024-01-02''\<rparr>"

definition station_nan :: "field_value Station" where
  "station_nan =
     \<lparr>name = [0x43],
      location = \<lparr>latitude = Num NaN, longitude = Num (Finite 2), address = None\<rparr>,
      status = ''active'', powerOutput = Num (Finite 22), connectorType = [0x43, 0x43, 0x53],
      station_id = ''c'', createdAt = ''2024-01-03'', updatedAt = ''2024-01-03''\<rparr>"

text \<open>The map component mounted with station A.\<close>

definition view_after_mount :: MapView where
  "view_after_mount = snd (initMap True sample_status [station_a] True mounted_view)"

section \<open>Part II: the properties\<close>

subsection \<open>Numbers and strings\<close>

lemma dropWhile_all_iff:
  "(\<forall>x \<in> set (dropWhile P xs). P x) \<longleftrightarrow> (\<forall>x \<in> set xs. P x)"
  by (induction xs) auto

lemma trim_empty_iff: "trim s = [] \<longleftrightarrow> (\<forall>c \<in> set s. isWhiteSpace c)"
  by (simp add: trim_def dropWhile_eq_Nil_conv dropWhile_all_iff)

lemma js_lt_Finite_left:
  "js_lt (Finite a) y = (case y of Finite b \<Rightarrow> a < b | PosInfinity \<Rightarrow> True | _ \<Rightarrow> False)"
  by (cases y) simp_all

lemma js_lt_Finite_right:
  "js_lt x (Finite b) = (case x of Finite a \<Rightarrow> a < b | NegInfinity \<Rightarrow> True | _ \<Rightarrow> False)"
  by (cases x) simp_all

lemma latitude_check:
  "v \<noteq> EmptyString \<Longrightarrow>
   (\<not> (strict_equals v (Finite 0) \<or> global_isNaN v)
    \<and> \<not> (less_than v (Finite lo) \<or> greater_than v (Finite hi)))
     \<longleftrightarrow> (number_in_range lo hi v \<and> v \<noteq> Num (Finite 0))"
proof (cases v)
  case (Num x)
  then show ?thesis
    by (cases x)
       (auto simp: strict_equals_def global_isNaN_def less_than_def greater_than_def
          js_strict_eq_def isNaN_def js_gt_def number_in_range_def)
next
  case EmptyString
  assume "v \<noteq> EmptyString"
  with EmptyString show ?thesis by simp
next
  case Undefined
  then show ?thesis
    by (simp add: strict_equals_def global_isNaN_def isNaN_def number_in_range_def)
qed

lemma power_check:
  "\<not> (less_equal v (Finite 0) \<or> global_isNaN v) \<longleftrightarrow> positive_number v"
proof (cases v)
  case (Num x)
  then show ?thesis
    by (cases x)
       (auto simp: less_equal_def global_isNaN_def js_le_def isNaN_def positive_number_def)
next
  case EmptyString
  then show ?thesis
    by (simp add: less_equal_def global_isNaN_def js_le_def isNaN_def positive_number_def)
next
  case Undefined
  then show ?thesis
    by (simp add: less_equal_def global_isNaN_def js_le_def isNaN_def positive_number_def)
qed

subsection \<open>The station form\<close>

text \<open>
  The five checks of \<^verbatim>\<open>validateForm\<close> do not depend on each other: the flag is the
  conjunction of the negated conditions and every field of \<^verbatim>\<open>formErrors\<close> is set by
  its own check.
\<close>

lemma validate_steps:
  "(let isValid = True;
        formErrors = fe0;
        (isValid, formErrors) =
          (if a then (False, formErrors\<lparr>e_name := m1\<rparr>) else (isValid, formErrors));
        (isValid, formErrors) =
          (if b1 then (False, formErrors\<lparr>e_latitude := m2\<rparr>)
           else if b2 then (False, formErrors\<lparr>e_latitude := m3\<rparr>)
           else (isValid, formErrors));
        (isValid, formErrors) =
          (if c1 then (False, formErrors\<lparr>e_longitude := m4\<rparr>)
           else if c2 then (False, formErrors\<lparr>e_longitude := m5\<rparr>)
           else (isValid, formErrors));
        (isValid, formErrors) =
          (if p then (False, formErrors\<lparr>e_powerOutput := m6\<rparr>) else (isValid, formErrors));
        (isValid, formErrors) =
          (if k then (False, formErrors\<lparr>e_connectorType := m7\<rparr>) else (isValid, formErrors))
    in (isValid, formErrors))
   = (\<not> a \<and> \<not> b1 \<and> \<not> b2 \<and> \<not> c1 \<and> \<not> c2 \<and> \<not> p \<and> \<not> k,
      fe0\<lparr>e_name := if a then m1 else e_name fe0,
          e_latitude := if b1 then m2 else if b2 then m3 else e_latitude fe0,
          e_longitude := if c1 then m4 else if c2 then m5 else e_longitude fe0,
          e_powerOutput := if p then m6 else e_powerOutput fe0,
          e_connectorType := if k then m7 else e_connectorType fe0\<rparr>)"
  by (cases a; cases b1; cases b2; cases c1; cases c2; cases p; cases k; simp)

lemma validateForm_closed:
  "validateForm d =
    (trim (name d) \<noteq> []
     \<and> \<not> (strict_equals (latitude (location d)) (Finite 0)
           \<or> global_isNaN (latitude (location d)))
     \<and> \<not> (less_than (latitude (location d)) (Finite (- 90))
           \<or> greater_than (latitude (location d)) (Finite 90))
     \<and> \<not> (strict_equals (longitude (location d)) (Finite 0)
           \<or> global_isNaN (longitude (location d)))
     \<and> \<not> (less_than (longitude (location d)) (Finite (- 180))
           \<or> greater_than (longitude (location d)) (Finite 180))
     \<and> \<not> (less_equal (powerOutput d) (Finite 0) \<or> global_isNaN (powerOutput d))
     \<and> trim (connectorType d) \<noteq> [],
     \<lparr>e_name = if trim (name d) = [] then ''Station name is required'' else [],
      e_latitude =
        if strict_equals (latitude (location d)) (Finite 0)
           \<or> global_isNaN (latitude (location d))
        then ''Latitude is required and must be a number''
        else if less_than (latitude (location d)) (Finite (- 90))
           \<or> greater_than (latitude (location d)) (Finite 90)
        then ''Latitude must be between -90 and 90'' else [],
      e_longitude =
        if strict_equals (longitude (location d)) (Finite 0)
           \<or> global_isNaN (longitude (location d))
        then ''Longitude is required and must be a number''
        else if less_than (longitude (location d)) (Finite (- 180))
           \<or> greater_than (longitude (location d)) (Finite 180)
        then ''Longitude must be between -180 and 180'' else [],
      e_powerOutput =
        if less_equal (powerOutput d) (Finite 0) \<or> global_isNaN (powerOutput d)
        then ''Power output is required and must be a positive number'' else [],
      e_connectorType = if trim (connectorType d) = [] then ''Connector type is required'' else [],
      e_form = []\<rparr>)"
  unfolding validateForm_def
  by (subst validate_steps) simp

text \<open>
  Claim C1, as the specification words it: \<^verbatim>\<open>validateForm\<close> returns true if and only if
  the trimmed name is non-empty, the latitude is a number in [-90, 90], the longitude a
  number in [-180, 180], the power output a positive number and the trimmed connector type
  non-empty. The code differs in two places. Line 124 reads
  \<^verbatim>\<open>latitude === 0 || isNaN(latitude)\<close>, and line 133 the same for the longitude, so
  that a station on the equator (or on the prime meridian) satisfies every condition of
  the claim and is refused with "Latitude is required and must be a number". And when the
  latitude input has been cleared the field holds the empty string, which is not a number:
  none of the four tests of lines 124 to 130 is true of it (it is not \<^verbatim>\<open>=== 0\<close>, and
  coerced to 0 it is neither \<^verbatim>\<open>NaN\<close> nor out of range), so that the form is accepted
  without a message.
\<close>

theorem C1_counterexample:
  "(trim (name equator_station) \<noteq> []
    \<and> number_in_range (- 90) 90 (latitude (location equator_station))
    \<and> number_in_range (- 180) 180 (longitude (location equator_station))
    \<and> positive_number (powerOutput equator_station)
    \<and> trim (connectorType equator_station) \<noteq> [])
   \<and> validateForm equator_station =
        (False, \<lparr>e_name = '''', e_latitude = ''Latitude is required and must be a number'',
                 e_longitude = '''', e_powerOutput = '''', e_connectorType = '''',
                 e_form = ''''\<rparr>)
   \<and> \<not> number_in_range (- 90) 90 (latitude (location cleared_latitude_station))
   \<and> validateForm cleared_latitude_station =
        (True, \<lparr>e_name = '''', e_latitude = '''', e_longitude = '''', e_powerOutput = '''',
                e_connectorType = '''', e_form = ''''\<rparr>)"
  by (simp add: validateForm_closed equator_station_def cleared_latitude_station_def trim_def
      isWhiteSpace_def number_in_range_def positive_number_def strict_equals_def
      global_isNaN_def less_than_def greater_than_def less_equal_def js_strict_eq_def
      isNaN_def js_gt_def js_le_def)

text \<open>
  Claim C1, amended: for every station form input whose latitude and longitude fields are
  not the empty string of a cleared input, \<^verbatim>\<open>validateForm\<close> returns true if and only if
  the trimmed name is non-empty, the latitude is a number in [-90, 90] other than 0, the
  longitude is a number in [-180, 180] other than 0, the power output is a positive number
  and the trimmed connector type is non-empty. For every input, it returns true exactly
  when it has recorded no message; the name, the power output and the connector type have
  a non-empty message exactly when they offend their condition; so has the latitude, and
  so has the longitude, unless the field is the empty string; and the general message
  \<^verbatim>\<open>form\<close> is left empty.
\<close>

theorem C1_validateForm:
  "(latitude (location d) \<noteq> EmptyString \<and> longitude (location d) \<noteq> EmptyString \<longrightarrow>
      (fst (validateForm d) \<longleftrightarrow>
           trim (name d) \<noteq> []
         \<and> number_in_range (- 90) 90 (latitude (location d))
         \<and> latitude (location d) \<noteq> Num (Finite 0)
         \<and> number_in_range (- 180) 180 (longitude (location d))
         \<and> longitude (location d) \<noteq> Num (Finite 0)
         \<and> positive_number (powerOutput d)
         \<and> trim (connectorType d) \<noteq> []))
   \<and> (fst (validateForm d) \<longleftrightarrow>
         e_name (snd (validateForm d)) = [] \<and> e_latitude (snd (validateForm d)) = []
         \<and> e_longitude (snd (validateForm d)) = [] \<and> e_powerOutput (snd (validateForm d)) = []
         \<and> e_connectorType (snd (validateForm d)) = [])
   \<and> (e_name (snd (validateForm d)) \<noteq> [] \<longleftrightarrow> trim (name d) = [])
   \<and> (latitude (location d) \<noteq> EmptyString \<longrightarrow>
        (e_latitude (snd (validateForm d)) \<noteq> [] \<longleftrightarrow>
          \<not> (number_in_range (- 90) 90 (latitude (location d))
             \<and> latitude (location d) \<noteq> Num (Finite 0))))
   \<and> (longitude (location d) \<noteq> EmptyString \<longrightarrow>
        (e_longitude (snd (validateForm d)) \<noteq> [] \<longleftrightarrow>
          \<not> (number_in_range (- 180) 180 (longitude (location d))
             \<and> longitude (location d) \<noteq> Num (Finite 0))))
   \<and> (e_powerOutput (snd (validateForm d)) \<noteq> [] \<longleftrightarrow> \<not> positive_number (powerOutput d))
   \<and> (e_connectorType (snd (validateForm d)) \<noteq> [] \<longleftrightarrow> trim (connectorType d) = [])
   \<and> e_form (snd (validateForm d)) = []"
proof -
  let ?lat = "latitude (location d)" and ?lon = "longitude (location d)"
  let ?A = "strict_equals ?lat (Finite 0) \<or> global_isNaN ?lat"
  let ?B = "less_than ?lat (Finite (- 90)) \<or> greater_than ?lat (Finite 90)"
  let ?C = "strict_equals ?lon (Finite 0) \<or> global_isNaN ?lon"
  let ?D = "less_than ?lon (Finite (- 180)) \<or> greater_than ?lon (Finite 180)"
  let ?P = "less_equal (powerOutput d) (Finite 0) \<or> global_isNaN (powerOutput d)"
  have lat: "?lat \<noteq> EmptyString \<longrightarrow>
      ((\<not> ?A \<and> \<not> ?B) \<longleftrightarrow> (number_in_range (- 90) 90 ?lat \<and> ?lat \<noteq> Num (Finite 0)))"
    using latitude_check [of ?lat "- 90" 90] by blast
  have lon: "?lon \<noteq> EmptyString \<longrightarrow>
      ((\<not> ?C \<and> \<not> ?D) \<longleftrightarrow> (number_in_range (- 180) 180 ?lon \<and> ?lon \<noteq> Num (Finite 0)))"
    using latitude_check [of ?lon "- 180" 180] by blast
  have pow: "\<not> ?P \<longleftrightarrow> positive_number (powerOutput d)"
    by (rule power_check)
  have flag: "fst (validateForm d) \<longleftrightarrow>
      trim (name d) \<noteq> [] \<and> \<not> ?A \<and> \<not> ?B \<and> \<not> ?C \<and> \<not> ?D \<and> \<not> ?P \<and> trim (connectorType d) \<noteq> []"
    unfolding validateForm_closed fst_conv ..
  have e1: "e_name (snd (validateForm d)) \<noteq> [] \<longleftrightarrow> trim (name d) = []"
    by (simp add: validateForm_closed)
  have e2: "e_latitude (snd (validateForm d)) \<noteq> [] \<longleftrightarrow> \<not> (\<not> ?A \<and> \<not> ?B)"
    by (simp add: validateForm_closed)
  have e3: "e_longitude (snd (validateForm d)) \<noteq> [] \<longleftrightarrow> \<not> (\<not> ?C \<and> \<not> ?D)"
    by (simp add: validateForm_closed)
  have e4: "e_powerOutput (snd (validateForm d)) \<noteq> [] \<longleftrightarrow> ?P"
    by (simp add: validateForm_closed)
  have e5: "e_connectorType (snd (validateForm d)) \<noteq> [] \<longleftrightarrow> trim (connectorType d) = []"
    by (simp add: validateForm_closed)
  have c1: "?lat \<noteq> EmptyString \<and> ?lon \<noteq> EmptyString \<longrightarrow>
      (fst (validateForm d) \<longleftrightarrow>
           trim (name d) \<noteq> []
         \<and> number_in_range (- 90) 90 ?lat \<and> ?lat \<noteq> Num (Finite 0)
         \<and> number_in_range (- 180) 180 ?lon \<and> ?lon \<noteq> Num (Finite 0)
         \<and> positive_number (powerOutput d)
         \<and> trim (connectorType d) \<noteq> [])"
    using lat lon pow unfolding flag by blast
  have c2: "fst (validateForm d) \<longleftrightarrow>
         e_name (snd (validateForm d)) = [] \<and> e_latitude (snd (validateForm d)) = []
         \<and> e_longitude (snd (validateForm d)) = [] \<and> e_powerOutput (snd (validateForm d)) = []
         \<and> e_connectorType (snd (validateForm d)) = []"
    using e1 e2 e3 e4 e5 unfolding flag by blast
  have c3: "e_name (snd (validateForm d)) \<noteq> [] \<longleftrightarrow> trim (name d) = []"
    by (rule e1)
  have c4: "?lat \<noteq> EmptyString \<longrightarrow>
        (e_latitude (snd (validateForm d)) \<noteq> [] \<longleftrightarrow>
          \<not> (number_in_range (- 90) 90 ?lat \<and> ?lat \<noteq> Num (Finite 0)))"
    using lat unfolding e2 by blast
  have c5: "?lon \<noteq> EmptyString \<longrightarrow>
        (e_longitude (snd (validateForm d)) \<noteq> [] \<longleftrightarrow>
          \<not> (number_in_range (- 180) 180 ?lon \<and> ?lon \<noteq> Num (Finite 0)))"
    using lon unfolding e3 by blast
  have c6: "e_powerOutput (snd (validateForm d)) \<noteq> [] \<longleftrightarrow> \<not> positive_number (powerOutput d)"
    using pow unfolding e4 by blast
  have c7: "e_connectorType (snd (validateForm d)) \<noteq> [] \<longleftrightarrow> trim (connectorType d) = []"
    by (rule e5)
  have c8: "e_form (snd (validateForm d)) = []"
    by (simp add: validateForm_closed)
  show ?thesis
    by (rule conjI [OF c1 conjI [OF c2 conjI [OF c3 conjI [OF c4 conjI [OF c5 conjI [OF c6
          conjI [OF c7 c8]]]]]]])
qed

text \<open>The theorem at the specification's scenario station and at the equator station.\<close>

theorem C1_validateForm_witness:
  "fst (validateForm main_st_station)
   \<and> e_latitude (snd (validateForm main_st_station)) = []
   \<and> \<not> fst (validateForm equator_station)
   \<and> e_latitude (snd (validateForm equator_station)) \<noteq> []"
  using C1_validateForm [of main_st_station] C1_validateForm [of equator_station]
  by (simp add: main_st_station_def equator_station_def trim_def isWhiteSpace_def
      number_in_range_def positive_number_def)

subsection \<open>The CORS gate\<close>

text \<open>\<^verbatim>\<open>indexOf\<close> answers -1 exactly for the values the array does not hold.\<close>

lemma indexOf_ge: "- 1 \<le> indexOf xs x"
  by (induction xs) (auto simp: Let_def)

lemma indexOf_found_iff: "indexOf xs x \<noteq> - 1 \<longleftrightarrow> x \<in> set xs"
proof (induction xs)
  case Nil
  show ?case by simp
next
  case (Cons y ys)
  have "- 1 \<le> indexOf ys x" by (rule indexOf_ge)
  with Cons show ?case by (auto simp: Let_def)
qed

lemma cors_origin_cases:
  "cors_origin origin =
     (if origin = None \<or> origin = Some [] \<or> (\<exists>s \<in> set allowedOrigins. origin = Some s)
      then Inr True else Inl (Error ''Not allowed by CORS''))"
  by (cases origin) (auto simp: cors_origin_def truthy_def includes_js_def)

lemma cors_origin_placeholder_cases:
  "cors_origin_placeholder origin =
     (if origin = None \<or> origin = Some []
         \<or> (\<exists>s \<in> set allowedOrigins_placeholder. origin = Some s)
      then Inr True else Inl (Error ''Not allowed by CORS''))"
  by (cases origin) (auto simp: cors_origin_placeholder_def truthy_def indexOf_found_iff)

text \<open>
  Claim C2, as the specification words it: the origin check allows a request if and only
  if the Origin header is absent or its value is exactly one of the strings of the
  allow-list. The guard is \<^verbatim>\<open>!origin || ...\<close>, and the empty string is falsy: a request
  that carries an Origin header with an empty value is allowed, although the header is
  present and its value is not in the list. This holds for the list of
  \<^verbatim>\<open>backend/index.js\<close> and for the placeholder list of the other copies.
\<close>

theorem C2_counterexample:
  "cors_origin (Some '''') = Inr True
   \<and> cors_origin_placeholder (Some '''') = Inr True
   \<and> Some '''' \<noteq> (None :: string option)
   \<and> '''' \<notin> set allowedOrigins
   \<and> '''' \<notin> set allowedOrigins_placeholder"
  by (simp add: cors_origin_def cors_origin_placeholder_def truthy_def allowedOrigins_def
      allowedOrigins_placeholder_def)

text \<open>
  Claim C2, amended: the origin check allows a request if and only if the Origin header is
  absent, or its value is empty, or its value is exactly one of the strings of the fixed
  allow-list; every other origin is rejected with the error "Not allowed by CORS". In
  particular \<^verbatim>\<open>http://evil.example\<close> is rejected and \<^verbatim>\<open>http://localhost:5173\<close> is
  accepted, under either allow-list.
\<close>

theorem C2_cors_origin:
  "(cors_origin origin = Inr True \<longleftrightarrow>
      origin = None \<or> origin = Some [] \<or> (\<exists>s \<in> set allowedOrigins. origin = Some s))
   \<and> (cors_origin origin \<noteq> Inr True \<longrightarrow>
        cors_origin origin = Inl (Error ''Not allowed by CORS''))
   \<and> (cors_origin_placeholder origin = Inr True \<longleftrightarrow>
        origin = None \<or> origin = Some []
        \<or> (\<exists>s \<in> set allowedOrigins_placeholder. origin = Some s))
   \<and> (cors_origin_placeholder origin \<noteq> Inr True \<longrightarrow>
        cors_origin_placeholder origin = Inl (Error ''Not allowed by CORS''))
   \<and> cors_origin (Some ''http://evil.example'') = Inl (Error ''Not allowed by CORS'')
   \<and> cors_origin (Some ''http://localhost:5173'') = Inr True
   \<and> cors_origin_placeholder (Some ''http://evil.example'') = Inl (Error ''Not allowed by CORS'')
   \<and> cors_origin_placeholder (Some ''http://localhost:5173'') = Inr True"
proof -
  have a: "cors_origin (Some ''http://evil.example'') = Inl (Error ''Not allowed by CORS'')"
    by (simp add: cors_origin_def truthy_def includes_js_def allowedOrigins_def)
  have b: "cors_origin (Some ''http://localhost:5173'') = Inr True"
    by (simp add: cors_origin_def truthy_def includes_js_def allowedOrigins_def)
  have c: "cors_origin_placeholder (Some ''http://evil.example'')
             = Inl (Error ''Not allowed by CORS'')"
    by (simp add: cors_origin_placeholder_def truthy_def allowedOrigins_placeholder_def)
  have d: "cors_origin_placeholder (Some ''http://localhost:5173'') = Inr True"
    by (simp add: cors_origin_placeholder_def truthy_def allowedOrigins_placeholder_def)
  have e: "(cors_origin origin = Inr True \<longleftrightarrow>
      origin = None \<or> origin = Some [] \<or> (\<exists>s \<in> set allowedOrigins. origin = Some s))
   \<and> (cors_origin origin \<noteq> Inr True \<longrightarrow>
        cors_origin origin = Inl (Error ''Not allowed by CORS''))"
    unfolding cors_origin_cases by simp
  have f: "(cors_origin_placeholder origin = Inr True \<longleftrightarrow>
        origin = None \<or> origin = Some []
        \<or> (\<exists>s \<in> set allowedOrigins_placeholder. origin = Some s))
   \<and> (cors_origin_placeholder origin \<noteq> Inr True \<longrightarrow>
        cors_origin_placeholder origin = Inl (Error ''Not allowed by CORS''))"
    unfolding cors_origin_placeholder_cases by simp
  from a b c d e f show ?thesis by blast
qed

text \<open>
  The deployed frontend is accepted by \<^verbatim>\<open>backend/index.js\<close> and, with a trailing
  slash, rejected; the copies with the placeholder list reject it.
\<close>

theorem C2_cors_origin_witness:
  "cors_origin (Some ''https://test-project-frontend-test.vercel.app'') = Inr True
   \<and> cors_origin (Some ''https://test-project-frontend-test.vercel.app/'')
        = Inl (Error ''Not allowed by CORS'')
   \<and> cors_origin None = Inr True
   \<and> cors_origin_placeholder (Some ''https://test-project-frontend-test.vercel.app'')
        = Inl (Error ''Not allowed by CORS'')"
  using C2_cors_origin [of "Some ''https://test-project-frontend-test.vercel.app''"]
        C2_cors_origin [of "Some ''https://test-project-frontend-test.vercel.app/''"]
        C2_cors_origin [of None]
  by (simp add: allowedOrigins_def allowedOrigins_placeholder_def)

subsection \<open>The global error handler\<close>

text \<open>
  Claim C6: for every error that reaches the global error-handling middleware, the response
  has status 500 and the body \<^verbatim>\<open>{message, error}\<close>, where \<^verbatim>\<open>error\<close> is null when
  \<^verbatim>\<open>NODE_ENV\<close> is \<^verbatim>\<open>production\<close> and carries the error's message otherwise (also
  when \<^verbatim>\<open>NODE_ENV\<close> is unset); the error is logged.
\<close>

theorem C6_errorHandler:
  "statusCode (fst (errorHandler NODE_ENV err res)) = 500
   \<and> (NODE_ENV = Some ''production'' \<longrightarrow>
        body (fst (errorHandler NODE_ENV err res)) =
          Some [(''message'', JsonString ''An unexpected error occurred''),
                (''error'', JsonNull)])
   \<and> (NODE_ENV \<noteq> Some ''production'' \<longrightarrow>
        body (fst (errorHandler NODE_ENV err res)) =
          Some [(''message'', JsonString ''An unexpected error occurred''),
                (''error'', JsonString (message err))])
   \<and> snd (errorHandler NODE_ENV err res) = [LogStack err]"
  by (simp add: errorHandler_def Let_def)

text \<open>The rejection of the CORS gate in production and in development, and a type error with \<^verbatim>\<open>NODE_ENV\<close> unset.\<close>

theorem C6_errorHandler_witness:
  "body (fst (errorHandler (Some ''production'') (Error ''Not allowed by CORS'')
                \<lparr>statusCode = 200, body = None\<rparr>)) =
     Some [(''message'', JsonString ''An unexpected error occurred''), (''error'', JsonNull)]
   \<and> body (fst (errorHandler (Some ''development'') (Error ''Not allowed by CORS'')
                \<lparr>statusCode = 200, body = None\<rparr>)) =
     Some [(''message'', JsonString ''An unexpected error occurred''),
           (''error'', JsonString ''Not allowed by CORS'')]
   \<and> body (fst (errorHandler None (TypeError ''x is not a function'')
                \<lparr>statusCode = 200, body = None\<rparr>)) =
     Some [(''message'', JsonString ''An unexpected error occurred''),
           (''error'', JsonString ''x is not a function'')]
   \<and> statusCode (fst (errorHandler None (TypeError ''x is not a function'')
                \<lparr>statusCode = 200, body = None\<rparr>)) = 500"
  using C6_errorHandler [of "Some ''production''" "Error ''Not allowed by CORS''"
          "\<lparr>statusCode = 200, body = None\<rparr>"]
        C6_errorHandler [of "Some ''development''" "Error ''Not allowed by CORS''"
          "\<lparr>statusCode = 200, body = None\<rparr>"]
        C6_errorHandler [of None "TypeError ''x is not a function''"
          "\<lparr>statusCode = 200, body = None\<rparr>"]
  by simp

subsection \<open>Startup\<close>

text \<open>The three runs of the startup chain.\<close>

lemma startup_Fulfilled:
  "startup listen_throws PORT (Fulfilled ()) =
     (case listen_throws of
        None \<Rightarrow>
          (Fulfilled (),
           \<lparr>console = [LogText ''Server running on port'', LogText ''Backend (local)'',
                        LogText ''Backend (Render)''],
            listen_calls = [PORT], listening = Some PORT, exit_code = None\<rparr>)
      | Some e \<Rightarrow>
          (Fulfilled (),
           \<lparr>console = [LogTextError ''Failed to connect to database:'' e],
            listen_calls = [PORT], listening = None, exit_code = Some 1\<rparr>))"
  by (simp add: startup_def promise_then_def promise_catch_def on_db_connected_def
      app_listen_def on_db_failed_def fresh_process_def Let_def split: option.splits)

lemma startup_Rejected:
  "startup listen_throws PORT (Rejected e) =
     (Fulfilled (),
      \<lparr>console = [LogTextError ''Failed to connect to database:'' e],
       listen_calls = [], listening = None, exit_code = Some 1\<rparr>)"
  by (simp add: startup_def promise_then_def promise_catch_def on_db_failed_def
      fresh_process_def Let_def)

lemma startup_Pending:
  "startup listen_throws PORT Pending = (Pending, fresh_process)"
  by (simp add: startup_def promise_then_def promise_catch_def)

text \<open>
  Claim C8: the HTTP listener binds only after the database connection has succeeded.
  \<^verbatim>\<open>app.listen\<close> is called if and only if \<^verbatim>\<open>connectDB()\<close> is fulfilled; a bound
  listener implies a fulfilled connection; and if \<^verbatim>\<open>connectDB()\<close> rejects, the process
  exits with code 1 without having called \<^verbatim>\<open>app.listen\<close>.
\<close>

theorem C8_startup:
  "(listen_calls (snd (startup listen_throws PORT connectDB)) \<noteq> [] \<longleftrightarrow>
      connectDB = Fulfilled ())
   \<and> (listening (snd (startup listen_throws PORT connectDB)) \<noteq> None \<longrightarrow>
        connectDB = Fulfilled ()
        \<and> listening (snd (startup listen_throws PORT connectDB)) = Some PORT
        \<and> exit_code (snd (startup listen_throws PORT connectDB)) = None)
   \<and> (\<forall>e. connectDB = Rejected e \<longrightarrow>
        exit_code (snd (startup listen_throws PORT connectDB)) = Some 1
        \<and> listening (snd (startup listen_throws PORT connectDB)) = None
        \<and> listen_calls (snd (startup listen_throws PORT connectDB)) = [])"
proof (cases connectDB)
  case Pending
  then show ?thesis by (simp add: startup_Pending fresh_process_def)
next
  case (Fulfilled u)
  then show ?thesis by (cases listen_throws) (simp_all add: startup_Fulfilled)
next
  case (Rejected e)
  then show ?thesis by (simp add: startup_Rejected)
qed

text \<open>A connection that succeeds, one that is refused, and one that never settles.\<close>

theorem C8_startup_witness:
  "listening (snd (startup None ''3002'' (Fulfilled ()))) = Some ''3002''
   \<and> listen_calls (snd (startup None ''3002'' (Rejected (Error ''ECONNREFUSED'')))) = []
   \<and> exit_code (snd (startup None ''3002'' (Rejected (Error ''ECONNREFUSED'')))) = Some 1
   \<and> listening (snd (startup None ''3002'' (Rejected (Error ''ECONNREFUSED'')))) = None
   \<and> listen_calls (snd (startup None ''3002'' Pending)) = []"
  using C8_startup [of None "''3002''" "Fulfilled ()"]
        C8_startup [of None "''3002''" "Rejected (Error ''ECONNREFUSED'')"]
        C8_startup [of None "''3002''" Pending]
  by (simp add: startup_Fulfilled)

subsection \<open>The auth store\<close>

text \<open>What \<^verbatim>\<open>checkAuth\<close> does on each of its three paths.\<close>

lemma checkAuth_skips:
  "\<not> (truthy (getItem w ''token'') \<and> truthy (getItem w ''user'')) \<Longrightarrow>
   checkAuth JSON_parse w = (Inr (), w)"
  by (auto simp: checkAuth_def Let_def truthy_def split: option.splits)

lemma checkAuth_parsed:
  assumes "getItem w ''token'' = Some t" and "t \<noteq> []"
    and "getItem w ''user'' = Some u" and "u \<noteq> []"
    and "JSON_parse u = Inr parsed"
  shows "checkAuth JSON_parse w =
           (Inr (), w\<lparr>token := Some t, user := parsed,
                       Authorization := Some (''Bearer '' @ t)\<rparr>)"
  using assms by (simp add: checkAuth_def Let_def truthy_def setAuthHeader_def)

lemma checkAuth_unparsable:
  assumes "getItem w ''token'' = Some t" and "t \<noteq> []"
    and "getItem w ''user'' = Some u" and "u \<noteq> []"
    and "JSON_parse u = Inl e"
  shows "checkAuth JSON_parse w =
           (Inr (),
            w\<lparr>token := Some t,
              logged := logged w @
                [LogTextError ''Failed to parse user data from localStorage:'' e],
              localStorage := (localStorage w)(''user'' := None),
              user := None,
              Authorization := Some (''Bearer '' @ t)\<rparr>)"
  using assms
  by (simp add: checkAuth_def Let_def truthy_def setAuthHeader_def removeItem_def getItem_def)

text \<open>No path of \<^verbatim>\<open>checkAuth\<close> ends in a throw.\<close>

lemma checkAuth_returns: "fst (checkAuth JSON_parse w) = Inr ()"
  by (simp add: checkAuth_def Let_def split: option.splits sum.splits)

text \<open>
  Claim C3, as the specification words it: for every content of \<^verbatim>\<open>localStorage\<close>, if
  a stored token and a stored user string are present and the user string fails to parse,
  \<^verbatim>\<open>checkAuth\<close> removes the \<^verbatim>\<open>user\<close> entry. The guard of line 77 is
  \<^verbatim>\<open>storedToken && storedUser\<close>, a truthiness test: when one of the two stored
  strings is empty, \<^verbatim>\<open>checkAuth\<close> does nothing at all. With the token \<^verbatim>\<open>abc\<close> and the
  empty user string (which does not parse), and with the empty token and the user string
  \<^verbatim>\<open>{bad\<close>, both entries are present, the user string does not parse, and the
  \<^verbatim>\<open>user\<close> entry is still there afterwards.
\<close>

theorem C3_counterexample:
  "getItem (initial_world (storage_of [(''token'', ''abc''), (''user'', '''')])) ''token''
     = Some ''abc''
   \<and> getItem (initial_world (storage_of [(''token'', ''abc''), (''user'', '''')])) ''user''
     = Some ''''
   \<and> sample_parse '''' = Inl (SyntaxError ''Unexpected token'')
   \<and> getItem (snd (checkAuth sample_parse
         (initial_world (storage_of [(''token'', ''abc''), (''user'', '''')])))) ''user''
     = Some ''''
   \<and> getItem (initial_world (storage_of [(''token'', ''''), (''user'', ''{bad'')])) ''token''
     = Some ''''
   \<and> getItem (initial_world (storage_of [(''token'', ''''), (''user'', ''{bad'')])) ''user''
     = Some ''{bad''
   \<and> sample_parse ''{bad'' = Inl (SyntaxError ''Unexpected token'')
   \<and> getItem (snd (checkAuth sample_parse
         (initial_world (storage_of [(''token'', ''''), (''user'', ''{bad'')])))) ''user''
     = Some ''{bad''"
  by (simp add: checkAuth_def Let_def truthy_def getItem_def initial_world_def storage_of_def
      sample_parse_def)

text \<open>
  Claim C3, amended: \<^verbatim>\<open>checkAuth\<close> never throws; and for every content of
  \<^verbatim>\<open>localStorage\<close>, if a non-empty stored token and a non-empty stored user string are
  present and the user string fails to parse as JSON, \<^verbatim>\<open>checkAuth\<close> removes the
  \<^verbatim>\<open>user\<close> entry and sets the store's user to null.
\<close>

theorem C3_checkAuth:
  "fst (checkAuth JSON_parse w) = Inr ()
   \<and> (\<forall>t u e. getItem w ''token'' = Some t \<and> t \<noteq> [] \<and> getItem w ''user'' = Some u \<and> u \<noteq> []
          \<and> JSON_parse u = Inl e \<longrightarrow>
        getItem (snd (checkAuth JSON_parse w)) ''user'' = None
        \<and> user (snd (checkAuth JSON_parse w)) = None)"
proof -
  have "getItem (snd (checkAuth JSON_parse w)) ''user'' = None
        \<and> user (snd (checkAuth JSON_parse w)) = None"
    if "getItem w ''token'' = Some t" "t \<noteq> []" "getItem w ''user'' = Some u" "u \<noteq> []"
       "JSON_parse u = Inl e" for t u e
    using that checkAuth_unparsable [where w = w and t = t and u = u and e = e
        and JSON_parse = JSON_parse]
    by (simp add: getItem_def)
  then show ?thesis using checkAuth_returns by blast
qed

text \<open>The storage with the token \<^verbatim>\<open>abc\<close> and the user string \<^verbatim>\<open>{bad\<close>.\<close>

theorem C3_checkAuth_witness:
  "fst (checkAuth sample_parse
          (initial_world (storage_of [(''token'', ''abc''), (''user'', ''{bad'')]))) = Inr ()
   \<and> getItem (snd (checkAuth sample_parse
          (initial_world (storage_of [(''token'', ''abc''), (''user'', ''{bad'')])))) ''user''
       = None
   \<and> user (snd (checkAuth sample_parse
          (initial_world (storage_of [(''token'', ''abc''), (''user'', ''{bad'')])))) = None"
  using C3_checkAuth [of sample_parse
          "initial_world (storage_of [(''token'', ''abc''), (''user'', ''{bad'')])"]
  by (simp add: getItem_def initial_world_def storage_of_def sample_parse_def)

text \<open>
  Claim C10, as worded: when \<^verbatim>\<open>checkAuth\<close> finds a stored token together with an
  unparseable stored user string, it accepts the session. With the stored token
  \<^verbatim>\<open>abc\<close> and the empty stored user string, which does not parse, the guard of line 77
  fails: the token is not taken over, no header is set and \<^verbatim>\<open>isLoggedIn()\<close> is false.
\<close>

theorem C10_counterexample:
  "getItem (initial_world (storage_of [(''token'', ''abc''), (''user'', '''')])) ''token''
     = Some ''abc''
   \<and> getItem (initial_world (storage_of [(''token'', ''abc''), (''user'', '''')])) ''user''
     = Some ''''
   \<and> sample_parse '''' = Inl (SyntaxError ''Unexpected token'')
   \<and> token (snd (checkAuth sample_parse
         (initial_world (storage_of [(''token'', ''abc''), (''user'', '''')])))) = None
   \<and> Authorization (snd (checkAuth sample_parse
         (initial_world (storage_of [(''token'', ''abc''), (''user'', '''')])))) = None
   \<and> \<not> isLoggedIn (snd (checkAuth sample_parse
         (initial_world (storage_of [(''token'', ''abc''), (''user'', '''')]))))"
  by (simp add: checkAuth_def Let_def truthy_def getItem_def initial_world_def storage_of_def
      sample_parse_def isLoggedIn_def)

text \<open>
  Claim C10, amended: when \<^verbatim>\<open>checkAuth\<close> finds a non-empty stored token together with
  a non-empty stored user string that does not parse, it still accepts the session: the
  store's token is the stored token, the Authorization default header is
  \<^verbatim>\<open>Bearer <token>\<close>, \<^verbatim>\<open>isLoggedIn()\<close> is true and the user is null; the token stays
  in the storage, only the \<^verbatim>\<open>user\<close> entry is removed.
\<close>

theorem C10_session_kept:
  assumes "getItem w ''token'' = Some t" and "t \<noteq> []"
    and "getItem w ''user'' = Some u" and "u \<noteq> []"
    and "JSON_parse u = Inl e"
  shows "token (snd (checkAuth JSON_parse w)) = Some t
         \<and> Authorization (snd (checkAuth JSON_parse w)) = Some (''Bearer '' @ t)
         \<and> isLoggedIn (snd (checkAuth JSON_parse w))
         \<and> user (snd (checkAuth JSON_parse w)) = None
         \<and> getItem (snd (checkAuth JSON_parse w)) ''token'' = Some t
         \<and> getItem (snd (checkAuth JSON_parse w)) ''user'' = None"
  using assms checkAuth_unparsable [where w = w and t = t and u = u and e = e
      and JSON_parse = JSON_parse]
  by (simp add: getItem_def isLoggedIn_def truthy_def)

text \<open>The same storage: the session of the token \<^verbatim>\<open>abc\<close> is accepted.\<close>

theorem C10_session_kept_witness:
  "token (snd (checkAuth sample_parse
       (initial_world (storage_of [(''token'', ''abc''), (''user'', ''{bad'')])))) = Some ''abc''
   \<and> Authorization (snd (checkAuth sample_parse
       (initial_world (storage_of [(''token'', ''abc''), (''user'', ''{bad'')]))))
       = Some ''Bearer abc''
   \<and> isLoggedIn (snd (checkAuth sample_parse
       (initial_world (storage_of [(''token'', ''abc''), (''user'', ''{bad'')]))))
   \<and> user (snd (checkAuth sample_parse
       (initial_world (storage_of [(''token'', ''abc''), (''user'', ''{bad'')])))) = None"
  using C10_session_kept [of "initial_world (storage_of [(''token'', ''abc''), (''user'', ''{bad'')])"
          "''abc''" "''{bad''" sample_parse "SyntaxError ''Unexpected token''"]
  by (simp add: getItem_def initial_world_def storage_of_def sample_parse_def)

text \<open>What \<^verbatim>\<open>login\<close>, \<^verbatim>\<open>register\<close> and \<^verbatim>\<open>logout\<close> leave behind.\<close>

lemma setAuthHeader_Some:
  "setAuthHeader (Some t) w =
     w\<lparr>Authorization := if t = [] then None else Some (''Bearer '' @ t)\<rparr>"
  by (simp add: setAuthHeader_def truthy_def)

lemma or_else_cases:
  "or_else a b = (if a = None \<or> a = Some [] then b else the a)"
  by (cases a) (auto simp: or_else_def truthy_def)

lemma login_resolved:
  "accepts_both storage_full JSON_stringify w d \<Longrightarrow>
   login storage_full JSON_stringify (Inr d) w =
     (Inr True,
      w\<lparr>loading := False, error := None, token := Some (data_token d),
        user := Some (data_user d),
        localStorage := (localStorage w)(''token'' \<mapsto> data_token d,
                                         ''user'' \<mapsto> JSON_stringify (data_user d)),
        Authorization := if data_token d = [] then None else Some (''Bearer '' @ data_token d),
        pushed := pushed w @ [''/dashboard'']\<rparr>)"
  by (simp add: login_def Let_def setItem_def router_push_def setAuthHeader_Some
      accepts_both_def)

lemma login_refused:
  "\<not> accepts_both storage_full JSON_stringify w d \<Longrightarrow>
   login storage_full JSON_stringify (Inr d) w =
     (Inr False,
      w\<lparr>loading := False, error := Some ''An unexpected error occurred during login.'',
        token := Some (data_token d), user := Some (data_user d),
        localStorage :=
          (if storage_full (localStorage w) ''token'' (data_token d) then localStorage w
           else (localStorage w)(''token'' \<mapsto> data_token d)),
        logged := logged w @ [LogTextError ''Login error:'' (Error ''QuotaExceededError'')]\<rparr>)"
  by (auto simp: login_def Let_def setItem_def accepts_both_def)

lemma login_rejected:
  "login storage_full JSON_stringify (Inl err) w =
     (Inr False,
      if isAxiosError err
      then w\<lparr>loading := False,
             error := Some (or_else (response_data_message err)
                              ''Login failed. Please check your credentials.'')\<rparr>
      else w\<lparr>loading := False,
             error := Some ''An unexpected error occurred during login.'',
             logged := logged w @ [LogTextError ''Login error:'' err]\<rparr>)"
  by (simp add: login_def Let_def)

lemma register_resolved:
  "accepts_both storage_full JSON_stringify w d \<Longrightarrow>
   register storage_full JSON_stringify (Inr d) w =
     (Inr True,
      w\<lparr>loading := False, error := None, token := Some (data_token d),
        user := Some (data_user d),
        localStorage := (localStorage w)(''token'' \<mapsto> data_token d,
                                         ''user'' \<mapsto> JSON_stringify (data_user d)),
        Authorization := if data_token d = [] then None else Some (''Bearer '' @ data_token d),
        pushed := pushed w @ [''/dashboard'']\<rparr>)"
  by (simp add: register_def Let_def setItem_def router_push_def setAuthHeader_Some
      accepts_both_def)

lemma register_refused:
  "\<not> accepts_both storage_full JSON_stringify w d \<Longrightarrow>
   register storage_full JSON_stringify (Inr d) w =
     (Inr False,
      w\<lparr>loading := False,
        error := Some ''An unexpected error occurred during registration.'',
        token := Some (data_token d), user := Some (data_user d),
        localStorage :=
          (if storage_full (localStorage w) ''token'' (data_token d) then localStorage w
           else (localStorage w)(''token'' \<mapsto> data_token d)),
        logged := logged w @
          [LogTextError ''Registration error:'' (Error ''QuotaExceededError'')]\<rparr>)"
  by (auto simp: register_def Let_def setItem_def accepts_both_def)

lemma register_rejected:
  "register storage_full JSON_stringify (Inl err) w =
     (Inr False,
      if isAxiosError err
      then w\<lparr>loading := False,
             error := Some (or_else (response_data_message err)
                              ''Registration failed. Please try again.'')\<rparr>
      else w\<lparr>loading := False,
             error := Some ''An unexpected error occurred during registration.'',
             logged := logged w @ [LogTextError ''Registration error:'' err]\<rparr>)"
  by (simp add: register_def Let_def)

lemma logout_result:
  "logout w =
     (Inr (),
      w\<lparr>token := None, user := None,
        localStorage := (localStorage w)(''token'' := None, ''user'' := None),
        Authorization := None, pushed := pushed w @ [''/login'']\<rparr>)"
  by (simp add: logout_def Let_def removeItem_def router_push_def setAuthHeader_def)

text \<open>
  Both actions have the same shape; they differ in the two texts. The facts about either
  are proved once, for an action with the results above.
\<close>

lemma auth_action_facts:
  assumes res: "\<And>d. accepts_both storage_full JSON_stringify w d \<Longrightarrow>
     act storage_full JSON_stringify (Inr d) w =
     (Inr True,
      w\<lparr>loading := False, error := None, token := Some (data_token d),
        user := Some (data_user d),
        localStorage := (localStorage w)(''token'' \<mapsto> data_token d,
                                         ''user'' \<mapsto> JSON_stringify (data_user d)),
        Authorization := if data_token d = [] then None else Some (''Bearer '' @ data_token d),
        pushed := pushed w @ [''/dashboard'']\<rparr>)"
    and ref: "\<And>d. \<not> accepts_both storage_full JSON_stringify w d \<Longrightarrow>
     act storage_full JSON_stringify (Inr d) w =
     (Inr False,
      w\<lparr>loading := False, error := Some unexpected,
        token := Some (data_token d), user := Some (data_user d),
        localStorage :=
          (if storage_full (localStorage w) ''token'' (data_token d) then localStorage w
           else (localStorage w)(''token'' \<mapsto> data_token d)),
        logged := logged w @ [LogTextError label (Error ''QuotaExceededError'')]\<rparr>)"
    and rej: "\<And>err. act storage_full JSON_stringify (Inl err) w =
     (Inr False,
      if isAxiosError err
      then w\<lparr>loading := False, error := Some (or_else (response_data_message err) fallback)\<rparr>
      else w\<lparr>loading := False, error := Some unexpected,
             logged := logged w @ [LogTextError label err]\<rparr>)"
    and run: "act storage_full JSON_stringify posted w = (r, w')"
  shows "(\<exists>b. r = Inr b)
     \<and> loading w' = False
     \<and> (\<forall>d. posted = Inr d \<and> accepts_both storage_full JSON_stringify w d \<longrightarrow>
          r = Inr True
          \<and> token w' = Some (data_token d)
          \<and> user w' = Some (data_user d)
          \<and> getItem w' ''token'' = Some (data_token d)
          \<and> getItem w' ''user'' = Some (JSON_stringify (data_user d))
          \<and> Authorization w' =
              (if data_token d = [] then None else Some (''Bearer '' @ data_token d))
          \<and> error w' = None)
     \<and> (\<forall>d. posted = Inr d \<and> \<not> accepts_both storage_full JSON_stringify w d \<longrightarrow>
          r = Inr False \<and> error w' = Some unexpected)
     \<and> (\<forall>err. posted = Inl err \<longrightarrow>
          r = Inr False
          \<and> token w' = token w \<and> user w' = user w
          \<and> localStorage w' = localStorage w \<and> Authorization w' = Authorization w
          \<and> (\<forall>m s. err = AxiosError m (Some s) \<and> s \<noteq> [] \<longrightarrow> error w' = Some s)
          \<and> (\<forall>m. err = AxiosError m None \<or> err = AxiosError m (Some []) \<longrightarrow>
                error w' = Some fallback)
          \<and> (\<not> isAxiosError err \<longrightarrow> error w' = Some unexpected))"
proof (cases posted)
  case (Inr d)
  show ?thesis
  proof (cases "accepts_both storage_full JSON_stringify w d")
    case True
    with run res [of d] Inr have r: "r = Inr True" and w': "w' =
        w\<lparr>loading := False, error := None, token := Some (data_token d),
          user := Some (data_user d),
          localStorage := (localStorage w)(''token'' \<mapsto> data_token d,
                                           ''user'' \<mapsto> JSON_stringify (data_user d)),
          Authorization :=
            if data_token d = [] then None else Some (''Bearer '' @ data_token d),
          pushed := pushed w @ [''/dashboard'']\<rparr>"
      by simp_all
    show ?thesis unfolding r w' using Inr True by (auto simp: getItem_def)
  next
    case False
    with run ref [of d] Inr have r: "r = Inr False" and w': "w' =
        w\<lparr>loading := False, error := Some unexpected,
          token := Some (data_token d), user := Some (data_user d),
          localStorage :=
            (if storage_full (localStorage w) ''token'' (data_token d) then localStorage w
             else (localStorage w)(''token'' \<mapsto> data_token d)),
          logged := logged w @ [LogTextError label (Error ''QuotaExceededError'')]\<rparr>"
      by simp_all
    show ?thesis unfolding r w' using Inr False by auto
  qed
next
  case (Inl err)
  show ?thesis
  proof (cases "isAxiosError err")
    case True
    with run rej [of err] Inl have r: "r = Inr False"
      and w': "w' = w\<lparr>loading := False,
                       error := Some (or_else (response_data_message err) fallback)\<rparr>"
      by simp_all
    show ?thesis unfolding r w' using Inl True by (auto simp: or_else_cases)
  next
    case False
    with run rej [of err] Inl have r: "r = Inr False"
      and w': "w' = w\<lparr>loading := False, error := Some unexpected,
                       logged := logged w @ [LogTextError label err]\<rparr>"
      by simp_all
    show ?thesis unfolding r w' using Inl False by auto
  qed
qed

text \<open>
  Claim C4, as worded: on success the actions persist the session, set the auth header and
  return true, and on failure they set the error to the message of the server's error
  response. \<^verbatim>\<open>setAuthHeader\<close> tests \<^verbatim>\<open>if (newToken)\<close> and the message is read with
  \<^verbatim>\<open>||\<close>: a successful response with an empty token makes \<^verbatim>\<open>login\<close> return true
  with the header removed, and an error response with an empty message leaves the fallback
  text, not the message. And the \<^verbatim>\<open>catch\<close> block also takes the error of
  \<^verbatim>\<open>localStorage.setItem\<close>: in a browser whose storage is full a successful response
  makes \<^verbatim>\<open>login\<close> return false, with nothing persisted.
\<close>

theorem C4_counterexample:
  "fst (login roomy_storage sample_stringify (Inr \<lparr>data_token = '''', data_user = alice\<rparr>)
          (initial_world (storage_of []))) = Inr True
   \<and> Authorization (snd (login roomy_storage sample_stringify
          (Inr \<lparr>data_token = '''', data_user = alice\<rparr>)
          (initial_world (storage_of [])))) = None
   \<and> fst (login roomy_storage sample_stringify
          (Inl (AxiosError ''Request failed with status code 401'' (Some '''')))
          (initial_world (storage_of []))) = Inr False
   \<and> error (snd (login roomy_storage sample_stringify
          (Inl (AxiosError ''Request failed with status code 401'' (Some '''')))
          (initial_world (storage_of []))))
       = Some ''Login failed. Please check your credentials.''
   \<and> fst (login full_storage sample_stringify
          (Inr \<lparr>data_token = ''tok123'', data_user = alice\<rparr>)
          (initial_world (storage_of []))) = Inr False
   \<and> getItem (snd (login full_storage sample_stringify
          (Inr \<lparr>data_token = ''tok123'', data_user = alice\<rparr>)
          (initial_world (storage_of [])))) ''token'' = None"
  by (simp add: login_resolved login_refused login_rejected or_else_cases initial_world_def
      accepts_both_def roomy_storage_def full_storage_def getItem_def storage_of_def)

text \<open>
  Claim C4, amended: for every server response (an error, or a success whose body is the
  \<^verbatim>\<open>{token, user}\<close> object of the API), \<^verbatim>\<open>login\<close> and \<^verbatim>\<open>register\<close>
  return a boolean and throw nothing, and \<^verbatim>\<open>loading\<close> is false afterwards. On success,
  when \<^verbatim>\<open>localStorage\<close> accepts both writes, they store the token and the user, persist
  both to \<^verbatim>\<open>localStorage\<close>, set the auth header to \<^verbatim>\<open>Bearer <token>\<close> when the token
  is non-empty (and remove it when the token is empty), and return true; when
  \<^verbatim>\<open>localStorage\<close> refuses one of the writes they return false and set the error to the
  action's generic text. On failure they return false, leave token, user, storage and
  header as they were, and set the error to the message of the server's error response
  when it has a non-empty one, to the action's fallback text when it has none or an empty
  one, and to the action's generic text when the error is not an Axios error.
\<close>

theorem C4_login_register:
  assumes "(act = login \<and> fallback = ''Login failed. Please check your credentials.''
              \<and> unexpected = ''An unexpected error occurred during login.'')
           \<or> (act = register \<and> fallback = ''Registration failed. Please try again.''
              \<and> unexpected = ''An unexpected error occurred during registration.'')"
    and "act storage_full JSON_stringify posted w = (r, w')"
  shows "(\<exists>b. r = Inr b)
     \<and> loading w' = False
     \<and> (\<forall>d. posted = Inr d \<and> accepts_both storage_full JSON_stringify w d \<longrightarrow>
          r = Inr True
          \<and> token w' = Some (data_token d)
          \<and> user w' = Some (data_user d)
          \<and> getItem w' ''token'' = Some (data_token d)
          \<and> getItem w' ''user'' = Some (JSON_stringify (data_user d))
          \<and> Authorization w' =
              (if data_token d = [] then None else Some (''Bearer '' @ data_token d))
          \<and> error w' = None)
     \<and> (\<forall>d. posted = Inr d \<and> \<not> accepts_both storage_full JSON_stringify w d \<longrightarrow>
          r = Inr False \<and> error w' = Some unexpected)
     \<and> (\<forall>err. posted = Inl err \<longrightarrow>
          r = Inr False
          \<and> token w' = token w \<and> user w' = user w
          \<and> localStorage w' = localStorage w \<and> Authorization w' = Authorization w
          \<and> (\<forall>m s. err = AxiosError m (Some s) \<and> s \<noteq> [] \<longrightarrow> error w' = Some s)
          \<and> (\<forall>m. err = AxiosError m None \<or> err = AxiosError m (Some []) \<longrightarrow>
                error w' = Some fallback)
          \<and> (\<not> isAxiosError err \<longrightarrow> error w' = Some unexpected))"
  using assms(1)
proof (elim disjE conjE)
  assume a: "act = login" "fallback = ''Login failed. Please check your credentials.''"
    "unexpected = ''An unexpected error occurred during login.''"
  from assms(2) have run: "login storage_full JSON_stringify posted w = (r, w')"
    unfolding a .
  show ?thesis unfolding a(2,3)
    by (rule auth_action_facts [where act = login,
          OF login_resolved login_refused login_rejected run])
next
  assume a: "act = register" "fallback = ''Registration failed. Please try again.''"
    "unexpected = ''An unexpected error occurred during registration.''"
  from assms(2) have run: "register storage_full JSON_stringify posted w = (r, w')"
    unfolding a .
  show ?thesis unfolding a(2,3)
    by (rule auth_action_facts [where act = register,
          OF register_resolved register_refused register_rejected run])
qed

text \<open>
  A login that succeeds, a registration the server refuses, a login without network, and
  a login into a full storage.
\<close>

theorem C4_login_register_witness:
  "fst (login roomy_storage sample_stringify
          (Inr \<lparr>data_token = ''tok123'', data_user = alice\<rparr>)
          (initial_world (storage_of []))) = Inr True
   \<and> Authorization (snd (login roomy_storage sample_stringify
          (Inr \<lparr>data_token = ''tok123'', data_user = alice\<rparr>)
          (initial_world (storage_of [])))) = Some ''Bearer tok123''
   \<and> getItem (snd (login roomy_storage sample_stringify
          (Inr \<lparr>data_token = ''tok123'', data_user = alice\<rparr>)
          (initial_world (storage_of [])))) ''token'' = Some ''tok123''
   \<and> fst (register roomy_storage sample_stringify
          (Inl (AxiosError ''Request failed with status code 400''
                  (Some ''Email already registered'')))
          (initial_world (storage_of []))) = Inr False
   \<and> error (snd (register roomy_storage sample_stringify
          (Inl (AxiosError ''Request failed with status code 400''
                  (Some ''Email already registered'')))
          (initial_world (storage_of [])))) = Some ''Email already registered''
   \<and> error (snd (login roomy_storage sample_stringify (Inl (Error ''Network Error''))
          (initial_world (storage_of [])))) = Some ''An unexpected error occurred during login.''
   \<and> fst (login full_storage sample_stringify
          (Inr \<lparr>data_token = ''tok123'', data_user = alice\<rparr>)
          (initial_world (storage_of []))) = Inr False
   \<and> error (snd (login full_storage sample_stringify
          (Inr \<lparr>data_token = ''tok123'', data_user = alice\<rparr>)
          (initial_world (storage_of [])))) = Some ''An unexpected error occurred during login.''"
  using C4_login_register [where act = login
          and fallback = "''Login failed. Please check your credentials.''"
          and unexpected = "''An unexpected error occurred during login.''"
          and storage_full = roomy_storage
          and JSON_stringify = sample_stringify
          and posted = "Inr \<lparr>data_token = ''tok123'', data_user = alice\<rparr>"
          and w = "initial_world (storage_of [])"
          and r = "fst (login roomy_storage sample_stringify
                     (Inr \<lparr>data_token = ''tok123'', data_user = alice\<rparr>)
                     (initial_world (storage_of [])))"
          and w' = "snd (login roomy_storage sample_stringify
                     (Inr \<lparr>data_token = ''tok123'', data_user = alice\<rparr>)
                     (initial_world (storage_of [])))"]
        C4_login_register [where act = register
          and fallback = "''Registration failed. Please try again.''"
          and unexpected = "''An unexpected error occurred during registration.''"
          and storage_full = roomy_storage
          and JSON_stringify = sample_stringify
          and posted = "Inl (AxiosError ''Request failed with status code 400''
                               (Some ''Email already registered''))"
          and w = "initial_world (storage_of [])"
          and r = "fst (register roomy_storage sample_stringify
                     (Inl (AxiosError ''Request failed with status code 400''
                             (Some ''Email already registered'')))
                     (initial_world (storage_of [])))"
          and w' = "snd (register roomy_storage sample_stringify
                     (Inl (AxiosError ''Request failed with status code 400''
                             (Some ''Email already registered'')))
                     (initial_world (storage_of [])))"]
        C4_login_register [where act = login
          and fallback = "''Login failed. Please check your credentials.''"
          and unexpected = "''An unexpected error occurred during login.''"
          and storage_full = roomy_storage
          and JSON_stringify = sample_stringify
          and posted = "Inl (Error ''Network Error'')"
          and w = "initial_world (storage_of [])"
          and r = "fst (login roomy_storage sample_stringify (Inl (Error ''Network Error''))
                     (initial_world (storage_of [])))"
          and w' = "snd (login roomy_storage sample_stringify (Inl (Error ''Network Error''))
                     (initial_world (storage_of [])))"]
        C4_login_register [where act = login
          and fallback = "''Login failed. Please check your credentials.''"
          and unexpected = "''An unexpected error occurred during login.''"
          and storage_full = full_storage
          and JSON_stringify = sample_stringify
          and posted = "Inr \<lparr>data_token = ''tok123'', data_user = alice\<rparr>"
          and w = "initial_world (storage_of [])"
          and r = "fst (login full_storage sample_stringify
                     (Inr \<lparr>data_token = ''tok123'', data_user = alice\<rparr>)
                     (initial_world (storage_of [])))"
          and w' = "snd (login full_storage sample_stringify
                     (Inr \<lparr>data_token = ''tok123'', data_user = alice\<rparr>)
                     (initial_world (storage_of [])))"]
  by (simp add: accepts_both_def roomy_storage_def full_storage_def)

text \<open>
  Every action keeps the header in agreement with the token, a \<^verbatim>\<open>login\<close> or
  \<^verbatim>\<open>register\<close> provided the storage accepts its writes.
\<close>

lemma header_agrees_checkAuth:
  "header_agrees w \<Longrightarrow> header_agrees (snd (checkAuth JSON_parse w))"
proof (cases "truthy (getItem w ''token'') \<and> truthy (getItem w ''user'')")
  case False
  assume "header_agrees w"
  with checkAuth_skips [OF False] show ?thesis by simp
next
  case True
  then obtain t u where tu: "getItem w ''token'' = Some t" "t \<noteq> []"
      "getItem w ''user'' = Some u" "u \<noteq> []"
    by (auto simp: truthy_def split: option.splits)
  show ?thesis
  proof (cases "JSON_parse u")
    case (Inl e)
    from checkAuth_unparsable [where JSON_parse = JSON_parse, OF tu Inl] tu(2)
    show ?thesis by (simp add: header_agrees_def)
  next
    case (Inr v)
    from checkAuth_parsed [where JSON_parse = JSON_parse, OF tu Inr] tu(2)
    show ?thesis by (simp add: header_agrees_def)
  qed
qed

lemma header_agrees_login:
  assumes "header_agrees w" and "accepts_writes_of storage_full JSON_stringify w (Login posted)"
  shows "header_agrees (snd (login storage_full JSON_stringify posted w))"
proof (cases posted)
  case (Inl err)
  with assms(1) show ?thesis
    by (auto simp: login_rejected header_agrees_def split: option.splits)
next
  case (Inr d)
  with assms(2) have "accepts_both storage_full JSON_stringify w d" by simp
  with Inr show ?thesis by (simp add: login_resolved header_agrees_def)
qed

lemma header_agrees_register:
  assumes "header_agrees w"
    and "accepts_writes_of storage_full JSON_stringify w (Register posted)"
  shows "header_agrees (snd (register storage_full JSON_stringify posted w))"
proof (cases posted)
  case (Inl err)
  with assms(1) show ?thesis
    by (auto simp: register_rejected header_agrees_def split: option.splits)
next
  case (Inr d)
  with assms(2) have "accepts_both storage_full JSON_stringify w d" by simp
  with Inr show ?thesis by (simp add: register_resolved header_agrees_def)
qed

lemma header_agrees_logout: "header_agrees (snd (logout w))"
  by (simp add: logout_result header_agrees_def)

lemma header_agrees_perform:
  "header_agrees w \<Longrightarrow> accepts_writes_of storage_full JSON_stringify w a \<Longrightarrow>
   header_agrees (perform storage_full JSON_parse JSON_stringify w a)"
  by (cases a)
     (simp_all add: header_agrees_checkAuth header_agrees_login header_agrees_register
       header_agrees_logout)

lemma header_agrees_foldl:
  "header_agrees w \<Longrightarrow> writes_accepted storage_full JSON_parse JSON_stringify w actions \<Longrightarrow>
   header_agrees (foldl (perform storage_full JSON_parse JSON_stringify) w actions)"
  by (induction actions arbitrary: w) (simp_all add: header_agrees_perform)

lemma header_agrees_initial: "header_agrees (initial_world storage)"
  by (simp add: header_agrees_def initial_world_def)

lemma writes_accepted_roomy:
  "writes_accepted roomy_storage JSON_parse JSON_stringify w actions"
proof (induction actions arbitrary: w)
  case Nil
  show ?case by simp
next
  case (Cons a rest)
  have "accepts_writes_of roomy_storage JSON_stringify w a"
    by (cases "(roomy_storage, JSON_stringify, w, a)" rule: accepts_writes_of.cases)
       (simp_all add: accepts_both_def roomy_storage_def)
  with Cons show ?case by simp
qed

text \<open>
  Claim C5, as worded: after every action the header equals \<^verbatim>\<open>Bearer <token>\<close> whenever
  the token is not null. After a login whose response carries the empty token, the store's
  token is the empty string, which is not null, and the header is absent. And after a login
  into a full storage the token of the response is in the store, \<^verbatim>\<open>setItem\<close> has
  thrown before \<^verbatim>\<open>setAuthHeader\<close> was reached, and the header is absent.
\<close>

theorem C5_counterexample:
  "token (session roomy_storage sample_parse sample_stringify (storage_of [])
            [Login (Inr \<lparr>data_token = '''', data_user = alice\<rparr>)]) = Some ''''
   \<and> Authorization (session roomy_storage sample_parse sample_stringify (storage_of [])
            [Login (Inr \<lparr>data_token = '''', data_user = alice\<rparr>)]) = None
   \<and> \<not> header_agrees_as_specified
        (session roomy_storage sample_parse sample_stringify (storage_of [])
            [Login (Inr \<lparr>data_token = '''', data_user = alice\<rparr>)])
   \<and> token (session full_storage sample_parse sample_stringify (storage_of [])
            [Login (Inr \<lparr>data_token = ''tok123'', data_user = alice\<rparr>)]) = Some ''tok123''
   \<and> Authorization (session full_storage sample_parse sample_stringify (storage_of [])
            [Login (Inr \<lparr>data_token = ''tok123'', data_user = alice\<rparr>)]) = None
   \<and> \<not> header_agrees_as_specified
        (session full_storage sample_parse sample_stringify (storage_of [])
            [Login (Inr \<lparr>data_token = ''tok123'', data_user = alice\<rparr>)])"
  by (simp add: session_def login_resolved login_refused header_agrees_as_specified_def
      initial_world_def accepts_both_def roomy_storage_def full_storage_def)

text \<open>
  Claim C5, amended: after every completed auth store action (\<^verbatim>\<open>checkAuth\<close>,
  \<^verbatim>\<open>login\<close>, \<^verbatim>\<open>register\<close>, \<^verbatim>\<open>logout\<close>), in any session that starts from the
  initial store and in which \<^verbatim>\<open>localStorage\<close> accepts the writes of every successful
  \<^verbatim>\<open>login\<close> and \<^verbatim>\<open>register\<close>, the shared default Authorization header agrees with
  the store's token: it equals \<^verbatim>\<open>Bearer <token>\<close> whenever the token is a non-empty
  string, and is absent whenever the token is null or empty. Each action whose writes the
  storage accepts keeps the agreement from any state that has it, and \<^verbatim>\<open>logout\<close> clears
  the token, the user, both storage entries and the header from any state.
\<close>

theorem C5_header_agrees:
  "(writes_accepted storage_full JSON_parse JSON_stringify (initial_world storage) actions \<longrightarrow>
      header_agrees (session storage_full JSON_parse JSON_stringify storage actions))
   \<and> (header_agrees w \<and> accepts_writes_of storage_full JSON_stringify w a \<longrightarrow>
        header_agrees (perform storage_full JSON_parse JSON_stringify w a))
   \<and> token (snd (logout w)) = None
   \<and> user (snd (logout w)) = None
   \<and> getItem (snd (logout w)) ''token'' = None
   \<and> getItem (snd (logout w)) ''user'' = None
   \<and> Authorization (snd (logout w)) = None"
proof -
  have "writes_accepted storage_full JSON_parse JSON_stringify (initial_world storage) actions
      \<longrightarrow> header_agrees (session storage_full JSON_parse JSON_stringify storage actions)"
    unfolding session_def by (simp add: header_agrees_foldl [OF header_agrees_initial])
  moreover have "header_agrees w \<and> accepts_writes_of storage_full JSON_stringify w a \<longrightarrow>
      header_agrees (perform storage_full JSON_parse JSON_stringify w a)"
    by (simp add: header_agrees_perform)
  moreover have "token (snd (logout w)) = None \<and> user (snd (logout w)) = None
     \<and> getItem (snd (logout w)) ''token'' = None \<and> getItem (snd (logout w)) ''user'' = None
     \<and> Authorization (snd (logout w)) = None"
    by (simp add: logout_result getItem_def)
  ultimately show ?thesis by blast
qed

text \<open>A session of five actions on a storage with a token and a broken user string.\<close>

theorem C5_header_agrees_witness:
  "header_agrees (session roomy_storage sample_parse sample_stringify
      (storage_of [(''token'', ''abc''), (''user'', ''{bad'')])
      [CheckAuth, Login (Inl (Error ''Network Error'')),
       Register (Inr \<lparr>data_token = ''tok123'', data_user = alice\<rparr>), Logout, CheckAuth])
   \<and> Authorization (session roomy_storage sample_parse sample_stringify
      (storage_of [(''token'', ''abc''), (''user'', ''{bad'')])
      [CheckAuth, Login (Inl (Error ''Network Error''))]) = Some ''Bearer abc''
   \<and> token (session roomy_storage sample_parse sample_stringify
      (storage_of [(''token'', ''abc''), (''user'', ''{bad'')])
      [CheckAuth, Login (Inl (Error ''Network Error''))]) = Some ''abc''
   \<and> header_agrees (perform roomy_storage sample_parse sample_stringify
        (session roomy_storage sample_parse sample_stringify
           (storage_of [(''token'', ''abc''), (''user'', ''{bad'')]) [CheckAuth])
        Logout)"
proof -
  let ?st = "storage_of [(''token'', ''abc''), (''user'', ''{bad'')]"
  let ?five = "[CheckAuth, Login (Inl (Error ''Network Error'')),
           Register (Inr \<lparr>data_token = ''tok123'', data_user = alice\<rparr>), Logout, CheckAuth]"
  have t: "getItem (initial_world ?st) ''token'' = Some ''abc''"
    and u: "getItem (initial_world ?st) ''user'' = Some ''{bad''"
    by (simp_all add: getItem_def initial_world_def storage_of_def)
  have p: "sample_parse ''{bad'' = Inl (SyntaxError ''Unexpected token'')"
    by (simp add: sample_parse_def)
  have c: "snd (checkAuth sample_parse (initial_world ?st)) =
      (initial_world ?st)\<lparr>token := Some ''abc'',
         logged := logged (initial_world ?st) @
           [LogTextError ''Failed to parse user data from localStorage:''
              (SyntaxError ''Unexpected token'')],
         localStorage := (localStorage (initial_world ?st))(''user'' := None),
         user := None, Authorization := Some (''Bearer '' @ ''abc'')\<rparr>"
    using checkAuth_unparsable [where JSON_parse = sample_parse, OF t _ u _ p] by simp
  have a: "Authorization (session roomy_storage sample_parse sample_stringify ?st
             [CheckAuth, Login (Inl (Error ''Network Error''))]) = Some ''Bearer abc''"
    and b: "token (session roomy_storage sample_parse sample_stringify ?st
             [CheckAuth, Login (Inl (Error ''Network Error''))]) = Some ''abc''"
    by (simp_all add: session_def c login_rejected)
  have five: "writes_accepted roomy_storage sample_parse sample_stringify
      (initial_world ?st) ?five"
    and one: "writes_accepted roomy_storage sample_parse sample_stringify
      (initial_world ?st) [CheckAuth]"
    by (rule writes_accepted_roomy)+
  have d: "header_agrees (session roomy_storage sample_parse sample_stringify ?st [CheckAuth])"
    using C5_header_agrees [of roomy_storage sample_parse sample_stringify ?st "[CheckAuth]"]
      one by blast
  have l: "accepts_writes_of roomy_storage sample_stringify
      (session roomy_storage sample_parse sample_stringify ?st [CheckAuth]) Logout"
    by simp
  from C5_header_agrees [of roomy_storage sample_parse sample_stringify ?st ?five
         "session roomy_storage sample_parse sample_stringify ?st [CheckAuth]" Logout]
       a b d five l
  show ?thesis by blast
qed

subsection \<open>The router guard\<close>

lemma resolve_map:
  "resolve_literal ''/map'' =
     \<lparr>fullPath = ''/map'',
      matched = [\<lparr>path = ''/map'', route_name = ''map'', component = ''MapPage'',
                  meta_requiresAuth = None\<rparr>]\<rparr>"
  by (simp add: resolve_literal_def routes_def)

lemma resolve_dashboard:
  "resolve_literal ''/dashboard'' =
     \<lparr>fullPath = ''/dashboard'',
      matched = [\<lparr>path = ''/dashboard'', route_name = ''dashboard'',
                  component = ''DashboardPage'', meta_requiresAuth = Some True\<rparr>]\<rparr>"
  by (simp add: resolve_literal_def routes_def)

text \<open>
  Claim C9: the \<^verbatim>\<open>/map\<close> route is reachable without authentication. Its record carries
  no \<^verbatim>\<open>requiresAuth\<close> flag, and for every state of the auth store, one without a token
  included, and from every location, the guard lets a navigation to \<^verbatim>\<open>/map\<close> proceed.
  A navigation to a location one of whose matched records requires authentication is
  redirected to \<^verbatim>\<open>/login\<close> while \<^verbatim>\<open>isLoggedIn()\<close> is false; every other navigation
  proceeds.
\<close>

theorem C9_map_route_public:
  "matched (resolve_literal ''/map'') =
     [\<lparr>path = ''/map'', route_name = ''map'', component = ''MapPage'',
       meta_requiresAuth = None\<rparr>]
   \<and> beforeEach (resolve_literal ''/map'') from_location authStore = Next
   \<and> ((\<exists>record \<in> set (matched to_location). meta_requiresAuth record = Some True)
        \<and> \<not> isLoggedIn authStore \<longrightarrow>
        beforeEach to_location from_location authStore = NextTo ''/login'')
   \<and> (\<not> ((\<exists>record \<in> set (matched to_location). meta_requiresAuth record = Some True)
          \<and> \<not> isLoggedIn authStore) \<longrightarrow>
        beforeEach to_location from_location authStore = Next)"
  by (simp add: resolve_map beforeEach_def list_ex_iff)

text \<open>
  A visitor without a token reaches \<^verbatim>\<open>/map\<close> and is sent from \<^verbatim>\<open>/dashboard\<close> to
  \<^verbatim>\<open>/login\<close>; with a token the dashboard opens.
\<close>

theorem C9_map_route_public_witness:
  "beforeEach (resolve_literal ''/map'') (resolve_literal ''/'')
      (initial_world (storage_of [])) = Next
   \<and> \<not> isLoggedIn (initial_world (storage_of []))
   \<and> beforeEach (resolve_literal ''/dashboard'') (resolve_literal ''/'')
      (initial_world (storage_of [])) = NextTo ''/login''
   \<and> beforeEach (resolve_literal ''/dashboard'') (resolve_literal ''/'')
      ((initial_world (storage_of []))\<lparr>token := Some ''abc''\<rparr>) = Next"
  using C9_map_route_public [of "resolve_literal ''/'' " "initial_world (storage_of [])"
          "resolve_literal ''/dashboard''"]
        C9_map_route_public [of "resolve_literal ''/'' "
          "(initial_world (storage_of []))\<lparr>token := Some ''abc''\<rparr>"
          "resolve_literal ''/dashboard''"]
  by (simp add: resolve_dashboard isLoggedIn_def truthy_def initial_world_def)

subsection \<open>The station map\<close>

text \<open>Removing the markers of a list one by one filters the layers of the map.\<close>

lemma fold_marker_remove:
  "mapInstance v = Some m \<Longrightarrow>
   fold marker_remove ms v =
     v\<lparr>mapInstance :=
         Some (m\<lparr>layers := filter (\<lambda>l. marker_id l \<notin> marker_id ` set ms) (layers m)\<rparr>)\<rparr>"
proof (induction ms arbitrary: v m)
  case Nil
  then show ?case by simp
next
  case (Cons x xs)
  let ?m = "m\<lparr>layers := filter (\<lambda>l. marker_id l \<noteq> marker_id x) (layers m)\<rparr>"
  have step: "marker_remove x v = v\<lparr>mapInstance := Some ?m\<rparr>"
    using Cons.prems by (simp add: marker_remove_def)
  have "fold marker_remove xs (v\<lparr>mapInstance := Some ?m\<rparr>) =
      (v\<lparr>mapInstance := Some ?m\<rparr>)\<lparr>mapInstance :=
         Some (?m\<lparr>layers := filter (\<lambda>l. marker_id l \<notin> marker_id ` set xs) (layers ?m)\<rparr>)\<rparr>"
    by (rule Cons.IH) simp
  moreover have "filter (\<lambda>l. marker_id l \<notin> marker_id ` set xs)
          (filter (\<lambda>l. marker_id l \<noteq> marker_id x) (layers m))
        = filter (\<lambda>l. marker_id l \<notin> marker_id ` set (x # xs)) (layers m)"
    by (auto intro: filter_cong)
  ultimately show ?case by (simp add: step)
qed

text \<open>\<^verbatim>\<open>L.marker\<close> makes the marker of a station exactly when its coordinates are valid.\<close>

lemma create_marker_valid:
  "valid_coordinates station \<Longrightarrow>
   create_marker cfg clickable i station = Inr (marker_of cfg clickable i station)"
  by (simp add: create_marker_def toLatLng_def valid_coordinates_def marker_of_def)

lemma create_marker_invalid:
  "\<not> valid_coordinates station \<Longrightarrow>
   create_marker cfg clickable i station = Inl (Error ''Invalid LatLng object'')"
  by (auto simp: create_marker_def toLatLng_def valid_coordinates_def)

lemma on_the_globe_valid: "on_the_globe station \<Longrightarrow> valid_coordinates station"
  by (auto simp: on_the_globe_def valid_coordinates_def number_in_range_def global_isNaN_def
      isNaN_def split: field_value.splits js_number.splits)

lemma on_the_globe_numbers:
  "on_the_globe station \<Longrightarrow>
   latitude (location station) = Num (ToNumber (latitude (location station)))
   \<and> longitude (location station) = Num (ToNumber (longitude (location station)))"
  by (auto simp: on_the_globe_def number_in_range_def split: field_value.splits)

lemma same_mapInstance: "mapInstance v = Some m \<Longrightarrow> v\<lparr>mapInstance := Some m\<rparr> = v"
  by (cases v) simp

text \<open>
  The loop over the stations appends one new marker per station, in order, up to the first
  station whose coordinates are not valid, where it throws.
\<close>

lemma add_station_markers_result:
  "mapInstance v = Some m \<Longrightarrow>
   add_station_markers cfg clickable stations bounds v =
     (if list_all valid_coordinates stations
      then Inr (bounds @ map latlng (new_markers cfg clickable (created v) stations))
      else Inl (Error ''Invalid LatLng object''),
      v\<lparr>mapInstance :=
          Some (m\<lparr>layers := layers m @
                  new_markers cfg clickable (created v) (takeWhile valid_coordinates stations)\<rparr>),
        markers := markers v @
          new_markers cfg clickable (created v) (takeWhile valid_coordinates stations),
        created := created v + length (takeWhile valid_coordinates stations)\<rparr>)"
proof (induction stations arbitrary: v m bounds)
  case Nil
  then show ?case by (simp add: new_markers_def same_mapInstance)
next
  case (Cons s rest)
  show ?case
  proof (cases "valid_coordinates s")
    case False
    with Cons.prems show ?thesis
      by (simp add: create_marker_invalid new_markers_def same_mapInstance)
  next
    case True
    let ?mk = "marker_of cfg clickable (created v) s"
    let ?m1 = "m\<lparr>layers := layers m @ [?mk]\<rparr>"
    let ?v1 = "v\<lparr>created := Suc (created v), mapInstance := Some ?m1,
                 markers := markers v @ [?mk]\<rparr>"
    have unfold: "add_station_markers cfg clickable (s # rest) bounds v =
        add_station_markers cfg clickable rest (bounds @ [latlng ?mk]) ?v1"
      using Cons.prems True by (simp add: create_marker_valid Let_def)
    have new: "new_markers cfg clickable (created v) (s # xs) =
        ?mk # new_markers cfg clickable (Suc (created v)) xs" for xs
      by (simp add: new_markers_def)
    have "mapInstance ?v1 = Some ?m1" by simp
    from Cons.IH [OF this, of "bounds @ [latlng ?mk]"] True
    show ?thesis unfolding unfold by (simp add: new)
  qed
qed

lemma length_new_markers [simp]: "length (new_markers cfg clickable n stations) = length stations"
  by (simp add: new_markers_def)

lemma new_markers_Nil_iff [simp]:
  "new_markers cfg clickable n stations = [] \<longleftrightarrow> stations = []"
  by (cases stations) (simp_all add: new_markers_def)

lemma nth_new_markers:
  "i < length stations \<Longrightarrow>
   new_markers cfg clickable n stations ! i = marker_of cfg clickable (n + i) (stations ! i)"
  by (simp add: new_markers_def nth_enumerate_eq)

lemma marker_id_new_markers:
  "map marker_id (new_markers cfg clickable n stations) = [n..<n + length stations]"
  by (rule nth_equalityI) (simp_all add: nth_new_markers marker_of_def)

text \<open>
  \<^verbatim>\<open>updateMarkers\<close> on an initialised map: the old markers leave the map, the new ones
  are those of the stations before the first invalid one, and the viewport is fitted when
  the list is not empty and every station is valid.
\<close>

lemma updateMarkers_result:
  assumes m: "mapInstance v = Some m" and ok: "view_ok v"
  shows "updateMarkers cfg stations clickable v =
     (if list_all valid_coordinates stations then Inr ()
      else Inl (Error ''Invalid LatLng object''),
      v\<lparr>mapInstance :=
          Some \<lparr>layers =
                  new_markers cfg clickable (created v) (takeWhile valid_coordinates stations),
                fitted =
                  (if stations \<noteq> [] \<and> list_all valid_coordinates stations
                   then Some (map latlng (new_markers cfg clickable (created v) stations))
                   else fitted m)\<rparr>,
        markers := new_markers cfg clickable (created v) (takeWhile valid_coordinates stations),
        created := created v + length (takeWhile valid_coordinates stations)\<rparr>)"
proof -
  from m ok have lay: "layers m = markers v" by (simp add: view_ok_def)
  have gone: "filter (\<lambda>l. marker_id l \<notin> marker_id ` set (markers v)) (layers m) = []"
    unfolding lay by (simp add: filter_empty_conv)
  let ?v1 = "v\<lparr>mapInstance := Some (m\<lparr>layers := []\<rparr>), markers := []\<rparr>"
  have cleared: "(fold marker_remove (markers v) v)\<lparr>markers := []\<rparr> = ?v1"
    by (simp add: fold_marker_remove [OF m] gone)
  show ?thesis
  proof (cases "stations = []")
    case True
    then show ?thesis
      unfolding updateMarkers_def Let_def cleared using m
      by (cases m) (simp add: new_markers_def)
  next
    case False
    have m1: "mapInstance ?v1 = Some (m\<lparr>layers := []\<rparr>)" by simp
    show ?thesis
    proof (cases "list_all valid_coordinates stations")
      case True
      then have all: "takeWhile valid_coordinates stations = stations"
        by (simp add: takeWhile_eq_all_conv list_all_iff)
      from add_station_markers_result [OF m1, of cfg clickable stations "[]"] False True
      show ?thesis
        unfolding updateMarkers_def Let_def cleared
        by (cases m) (simp add: all)
    next
      case invalid: False
      from add_station_markers_result [OF m1, of cfg clickable stations "[]"] False invalid
      show ?thesis
        unfolding updateMarkers_def Let_def cleared
        by (cases m) simp
    qed
  qed
qed

lemma view_ok_updateMarkers:
  assumes "mapInstance v = Some m" and "view_ok v"
  shows "view_ok (snd (updateMarkers cfg stations clickable v))"
proof -
  let ?p = "takeWhile valid_coordinates stations"
  have "list_all (\<lambda>marker. marker_id marker < created v + length ?p)
          (new_markers cfg clickable (created v) ?p)"
    unfolding list_all_length by (simp add: nth_new_markers marker_of_def)
  then show ?thesis
    unfolding updateMarkers_result [OF assms] by (simp add: view_ok_def)
qed

lemma old_markers_gone:
  assumes "view_ok v" and "old \<in> set (markers v)"
  shows "old \<notin> set (new_markers cfg clickable (created v) stations)"
proof
  assume "old \<in> set (new_markers cfg clickable (created v) stations)"
  then have "marker_id old \<in> set (map marker_id (new_markers cfg clickable (created v) stations))"
    by simp
  then have "created v \<le> marker_id old" by (simp add: marker_id_new_markers)
  moreover from assms have "marker_id old < created v"
    by (simp add: view_ok_def list_all_iff)
  ultimately show False by simp
qed

lemma initMap_mounted:
  "initMap True cfg stations clickable mounted_view =
     (if list_all valid_coordinates stations then Inr ()
      else Inl (Error ''Invalid LatLng object''),
      \<lparr>mapInstance =
          Some \<lparr>layers = new_markers cfg clickable 0 (takeWhile valid_coordinates stations),
                fitted = (if stations \<noteq> [] \<and> list_all valid_coordinates stations
                          then Some (map latlng (new_markers cfg clickable 0 stations))
                          else None)\<rparr>,
        markers = new_markers cfg clickable 0 (takeWhile valid_coordinates stations),
        created = length (takeWhile valid_coordinates stations)\<rparr>)"
proof -
  let ?v = "mounted_view\<lparr>mapInstance := Some \<lparr>layers = [], fitted = None\<rparr>\<rparr>"
  have m: "mapInstance ?v = Some \<lparr>layers = [], fitted = None\<rparr>" by simp
  have ok: "view_ok ?v" by (simp add: view_ok_def mounted_view_def)
  note upd = updateMarkers_result [OF m ok, of cfg stations clickable]
  show ?thesis
    by (simp only: initMap_def Let_def upd) (simp add: mounted_view_def)
qed

lemma marker_color_samples:
  "marker_color sample_status ''active'' = ''#00cc66''"
  "marker_color sample_status ''inactive'' = ''#cc3300''"
  "marker_color sample_status ''maintenance'' = ''#6c757d''"
  by (simp_all add: marker_color_def sample_status_def or_else_def truthy_def)

text \<open>
  The state \<open>view_ok\<close> is the one the component is in whenever \<^verbatim>\<open>updateMarkers\<close>
  runs: it holds when the component is mounted, \<^verbatim>\<open>initMap\<close> establishes it together
  with the map, and the watcher, which calls \<^verbatim>\<open>updateMarkers\<close> only once the map is
  there, keeps it, whether \<^verbatim>\<open>updateMarkers\<close> throws or not.
\<close>

lemma view_ok_mounted: "view_ok mounted_view"
  by (simp add: view_ok_def mounted_view_def)

lemma view_ok_initMap:
  "view_ok (snd (initMap mapContainer cfg stations clickable mounted_view))"
proof (cases mapContainer)
  case True
  let ?p = "takeWhile valid_coordinates stations"
  have "list_all (\<lambda>marker. marker_id marker < length ?p) (new_markers cfg clickable 0 ?p)"
    unfolding list_all_length by (simp add: nth_new_markers marker_of_def)
  with True show ?thesis by (simp add: initMap_mounted view_ok_def)
next
  case False
  then show ?thesis by (simp add: initMap_def view_ok_mounted)
qed

lemma view_ok_watch_stations:
  "view_ok v \<Longrightarrow> view_ok (snd (watch_stations cfg stations clickable v))"
  by (cases "mapInstance v") (simp_all add: watch_stations_def view_ok_updateMarkers)

lemma view_after_mount_eq:
  "view_after_mount =
     \<lparr>mapInstance =
        Some \<lparr>layers = [marker_of sample_status True 0 station_a],
              fitted = Some [(Finite 40, Finite (- 73))]\<rparr>,
      markers = [marker_of sample_status True 0 station_a], created = 1\<rparr>"
proof -
  have "valid_coordinates station_a"
    by (simp add: valid_coordinates_def station_a_def global_isNaN_def isNaN_def)
  then show ?thesis
    by (simp add: view_after_mount_def initMap_mounted new_markers_def)
       (simp add: marker_of_def station_a_def)
qed

text \<open>
  Claim C7, as worded: for every station list given to the map component, after
  \<^verbatim>\<open>updateMarkers\<close> the \<^verbatim>\<open>markers\<close> array holds one marker per station. The
  coordinates of a station go to \<^verbatim>\<open>L.marker\<close> as they are (line 329), and Leaflet
  refuses a coordinate that is not a number: for the list of the one station whose
  latitude is \<^verbatim>\<open>NaN\<close>, \<^verbatim>\<open>updateMarkers\<close> throws and leaves no marker, and for
  station A followed by that station it throws after the first marker.
\<close>

theorem C7_counterexample:
  "fst (updateMarkers sample_status [station_nan] True view_after_mount)
     = Inl (Error ''Invalid LatLng object'')
   \<and> markers (snd (updateMarkers sample_status [station_nan] True view_after_mount)) = []
   \<and> fst (updateMarkers sample_status [station_a, station_nan] True view_after_mount)
     = Inl (Error ''Invalid LatLng object'')
   \<and> length (markers (snd (updateMarkers sample_status [station_a, station_nan] True
        view_after_mount))) = 1"
proof -
  have m: "mapInstance view_after_mount =
      Some \<lparr>layers = [marker_of sample_status True 0 station_a],
            fitted = Some [(Finite 40, Finite (- 73))]\<rparr>"
    by (simp add: view_after_mount_eq)
  have ok: "view_ok view_after_mount"
    by (simp add: view_after_mount_eq view_ok_def marker_of_def)
  have a: "valid_coordinates station_a"
    by (simp add: valid_coordinates_def station_a_def global_isNaN_def isNaN_def)
  have n: "\<not> valid_coordinates station_nan"
    by (simp add: valid_coordinates_def station_nan_def global_isNaN_def isNaN_def)
  show ?thesis
    by (simp add: updateMarkers_result [OF m ok] a n)
qed

text \<open>
  Claim C7, amended: for every list of stations on the globe (each latitude a number in
  [-90, 90], each longitude a number in [-180, 180], the invariant of the data model),
  after \<^verbatim>\<open>updateMarkers\<close> has run on an initialised map it has not thrown and the
  \<^verbatim>\<open>markers\<close> array holds exactly one marker per station, in order, each at its
  station's latitude and longitude and with the colour its station's status selects; the
  markers created before are no longer on the map, which shows the new markers and nothing
  else. For the empty list no marker is created, the viewport is left alone and the
  template shows the empty-state placeholder; for a non-empty list the placeholder is
  hidden and the viewport is fitted to the bounds extended by the positions of all the
  markers.
\<close>

theorem C7_updateMarkers:
  assumes "mapInstance v = Some m" and "view_ok v"
    and "list_all on_the_globe stations"
    and "updateMarkers STATION_STATUS stations clickable v = (r, v')"
  shows "r = Inr ()
     \<and> length (markers v') = length stations
     \<and> (\<forall>i < length stations.
          latitude (location (stations ! i)) = Num (fst (latlng (markers v' ! i)))
          \<and> longitude (location (stations ! i)) = Num (snd (latlng (markers v' ! i)))
          \<and> icon_color (markers v' ! i) = marker_color STATION_STATUS (status (stations ! i))
          \<and> popup_station (markers v' ! i) = stations ! i)
     \<and> distinct (map marker_id (markers v'))
     \<and> (\<exists>m'. mapInstance v' = Some m' \<and> layers m' = markers v'
            \<and> (\<forall>old \<in> set (markers v). old \<notin> set (layers m'))
            \<and> (stations = [] \<longrightarrow> fitted m' = fitted m)
            \<and> (stations \<noteq> [] \<longrightarrow> fitted m' = Some (map latlng (markers v'))))
     \<and> (stations = [] \<longrightarrow>
          markers v' = [] \<and> created v' = created v \<and> empty_state_shown stations)
     \<and> (stations \<noteq> [] \<longrightarrow> \<not> empty_state_shown stations)
     \<and> view_ok v'"
proof -
  let ?new = "new_markers STATION_STATUS clickable (created v) stations"
  from assms(3) have valid: "list_all valid_coordinates stations"
    by (simp add: list_all_iff on_the_globe_valid)
  then have all: "takeWhile valid_coordinates stations = stations"
    by (simp add: takeWhile_eq_all_conv list_all_iff)
  from valid assms(4)
    updateMarkers_result [OF assms(1,2), of STATION_STATUS stations clickable]
  have r: "r = Inr ()"
    and v': "v' = v\<lparr>mapInstance :=
          Some \<lparr>layers = ?new,
                fitted = (if stations \<noteq> [] then Some (map latlng ?new) else fitted m)\<rparr>,
        markers := ?new, created := created v + length stations\<rparr>"
    by (simp_all add: all)
  have mk: "markers v' = ?new" by (simp add: v')
  have a: "length (markers v') = length stations" by (simp add: mk)
  have b: "\<forall>i < length stations.
          latitude (location (stations ! i)) = Num (fst (latlng (markers v' ! i)))
          \<and> longitude (location (stations ! i)) = Num (snd (latlng (markers v' ! i)))
          \<and> icon_color (markers v' ! i) = marker_color STATION_STATUS (status (stations ! i))
          \<and> popup_station (markers v' ! i) = stations ! i"
  proof (intro allI impI)
    fix i assume i: "i < length stations"
    with assms(3) have "on_the_globe (stations ! i)" by (simp add: list_all_length)
    from on_the_globe_numbers [OF this] i
    show "latitude (location (stations ! i)) = Num (fst (latlng (markers v' ! i)))
          \<and> longitude (location (stations ! i)) = Num (snd (latlng (markers v' ! i)))
          \<and> icon_color (markers v' ! i) = marker_color STATION_STATUS (status (stations ! i))
          \<and> popup_station (markers v' ! i) = stations ! i"
      by (simp add: mk nth_new_markers marker_of_def)
  qed
  have c: "distinct (map marker_id (markers v'))"
    by (simp add: mk marker_id_new_markers)
  have d: "\<exists>m'. mapInstance v' = Some m' \<and> layers m' = markers v'
            \<and> (\<forall>old \<in> set (markers v). old \<notin> set (layers m'))
            \<and> (stations = [] \<longrightarrow> fitted m' = fitted m)
            \<and> (stations \<noteq> [] \<longrightarrow> fitted m' = Some (map latlng (markers v')))"
    using old_markers_gone [OF assms(2), of _ STATION_STATUS clickable stations]
    by (simp add: v')
  have e: "stations = [] \<longrightarrow>
          markers v' = [] \<and> created v' = created v \<and> empty_state_shown stations"
    by (simp add: v' empty_state_shown_def)
  have f: "stations \<noteq> [] \<longrightarrow> \<not> empty_state_shown stations"
    by (simp add: empty_state_shown_def)
  have g: "view_ok v'"
    using view_ok_updateMarkers [OF assms(1,2), of STATION_STATUS stations clickable] assms(4)
    by simp
  from r a b c d e f g show ?thesis by blast
qed

text \<open>
  The map mounted with station A, then given the stations A and B, then the empty list.
\<close>

theorem C7_updateMarkers_witness:
  "fst (updateMarkers sample_status [station_a, station_b] True view_after_mount) = Inr ()
   \<and> length (markers (snd (updateMarkers sample_status [station_a, station_b] True
        view_after_mount))) = 2
   \<and> fst (latlng (markers (snd (updateMarkers sample_status [station_a, station_b] True
        view_after_mount)) ! 0)) = Finite 40
   \<and> icon_color (markers (snd (updateMarkers sample_status [station_a, station_b] True
        view_after_mount)) ! 0) = ''#00cc66''
   \<and> snd (latlng (markers (snd (updateMarkers sample_status [station_a, station_b] True
        view_after_mount)) ! 1)) = Finite 2
   \<and> icon_color (markers (snd (updateMarkers sample_status [station_a, station_b] True
        view_after_mount)) ! 1) = ''#cc3300''
   \<and> markers (snd (updateMarkers sample_status [] True view_after_mount)) = []
   \<and> empty_state_shown []"
proof -
  let ?m = "\<lparr>layers = [marker_of sample_status True 0 station_a],
             fitted = Some [(Finite 40, Finite (- 73))]\<rparr>"
  have m: "mapInstance view_after_mount = Some ?m" by (simp add: view_after_mount_eq)
  have ok: "view_ok view_after_mount"
    by (simp add: view_after_mount_eq view_ok_def marker_of_def)
  have valid: "list_all on_the_globe [station_a, station_b]"
    by (simp add: on_the_globe_def number_in_range_def station_a_def station_b_def)
  have none_valid: "list_all on_the_globe []" by simp
  note two = C7_updateMarkers [OF m ok valid, of sample_status True
      "fst (updateMarkers sample_status [station_a, station_b] True view_after_mount)"
      "snd (updateMarkers sample_status [station_a, station_b] True view_after_mount)"]
  note none = C7_updateMarkers [OF m ok none_valid, of sample_status True
      "fst (updateMarkers sample_status [] True view_after_mount)"
      "snd (updateMarkers sample_status [] True view_after_mount)"]
  from two none show ?thesis
    by (simp add: All_less_Suc station_a_def station_b_def marker_color_samples)
qed

end
